theory Spec2Isabelle
  imports Main "HOL-Library.Char_ord" "HOL-Library.List_Lexorder"
begin

section \<open>JavaScript values, errors and string coercion\<close>

text \<open>
  The errors the code raises or receives, one constructor per class of error object.
  \<open>Error m\<close> is \<^verbatim>\<open>new Error(m)\<close> as the repository throws it (no \<^verbatim>\<open>code\<close> property);
  \<open>DatabaseError c m\<close> is an error of the relational driver with its \<^verbatim>\<open>code\<close> (an SQLSTATE);
  \<open>RedisError c m\<close> is an error of the cache client with its optional \<^verbatim>\<open>code\<close>
  (\<^verbatim>\<open>ECONNREFUSED\<close>, \<^verbatim>\<open>ENOTFOUND\<close>, ...); \<open>CacheUnavailableError\<close> is the error built in
  \<^verbatim>\<open>_handleError\<close> and in the helpers of \<^verbatim>\<open>config/database\<close>
  (name \<^verbatim>\<open>CacheUnavailableError\<close>, code \<^verbatim>\<open>CACHE_UNAVAILABLE\<close>, statusCode 503).
\<close>

datatype js_error =
    Error string
  | TypeError string
  | SyntaxError string
  | DatabaseError string string
  | RedisError "string option" string
  | CacheUnavailableError

fun err_code :: "js_error \<Rightarrow> string option" where
  "err_code (Error m) = None"
| "err_code (TypeError m) = None"
| "err_code (SyntaxError m) = None"
| "err_code (DatabaseError c m) = Some c"
| "err_code (RedisError c m) = c"
| "err_code CacheUnavailableError = Some ''CACHE_UNAVAILABLE''"

fun err_message :: "js_error \<Rightarrow> string" where
  "err_message (Error m) = m"
| "err_message (TypeError m) = m"
| "err_message (SyntaxError m) = m"
| "err_message (DatabaseError c m) = m"
| "err_message (RedisError c m) = m"
| "err_message CacheUnavailableError = ''Cache service unavailable''"

text \<open>The connection errors, and the errors of the relational driver.\<close>

definition connection_error :: "js_error \<Rightarrow> bool" where
  "connection_error e = (err_code e = Some ''ECONNREFUSED'' \<or> err_code e = Some ''ENOTFOUND'')"


text \<open>
  The values the code stores and passes around: the JSON fragment of JavaScript, with
  \<open>JUndefined\<close> for a property that is present but undefined. Numbers are integers and
  strings are sequences of 8-bit code units; an object is the list of its own properties
  in insertion order.
\<close>

datatype jsval =
    JUndefined
  | JNull
  | JBool bool
  | JNum int
  | JStr string
  | JArr "jsval list"
  | JObj "(string \<times> jsval) list"

subsection \<open>Decimal numerals\<close>

definition digit_char :: "nat \<Rightarrow> char" where
  "digit_char d = ''0123456789'' ! d"

fun show_nat :: "nat \<Rightarrow> string" where
  "show_nat n = (if n < 10 then [digit_char n] else show_nat (n div 10) @ [digit_char (n mod 10)])"

declare show_nat.simps [simp del]

definition show_int :: "int \<Rightarrow> string" where
  "show_int i = (if i < 0 then CHR ''-'' # show_nat (nat (- i)) else show_nat (nat i))"

definition digit_val :: "char \<Rightarrow> nat option" where
  "digit_val c = (if c \<in> set ''0123456789'' then Some (of_char c - 48) else None)"

fun read_digits :: "nat \<Rightarrow> string \<Rightarrow> nat option" where
  "read_digits acc [] = Some acc"
| "read_digits acc (c # cs) =
     (case digit_val c of None \<Rightarrow> None | Some d \<Rightarrow> read_digits (10 * acc + d) cs)"

definition read_nat :: "string \<Rightarrow> nat option" where
  "read_nat s = (if s = [] then None else read_digits 0 s)"

text \<open>\<^verbatim>\<open>String(v)\<close> and template-literal interpolation \<^verbatim>\<open>`${v}`\<close>.\<close>

fun join :: "string \<Rightarrow> string list \<Rightarrow> string" where
  "join sep [] = []"
| "join sep [x] = x"
| "join sep (x # y # ys) = x @ sep @ join sep (y # ys)"

fun js_String :: "jsval \<Rightarrow> string"
  and js_String_elems :: "jsval list \<Rightarrow> string list" where
  "js_String JUndefined = ''undefined''"
| "js_String JNull = ''null''"
| "js_String (JBool b) = (if b then ''true'' else ''false'')"
| "js_String (JNum i) = show_int i"
| "js_String (JStr s) = s"
| "js_String (JArr vs) = join '','' (js_String_elems vs)"
| "js_String (JObj kvs) = ''[object Object]''"
| "js_String_elems [] = []"
| "js_String_elems (v # vs) =
     (if v = JUndefined \<or> v = JNull then [] else js_String v) # js_String_elems vs"

text \<open>Truthiness, as \<^verbatim>\<open>if (v)\<close> and \<^verbatim>\<open>v || d\<close> read it.\<close>

fun truthy :: "jsval \<Rightarrow> bool" where
  "truthy JUndefined = False"
| "truthy JNull = False"
| "truthy (JBool b) = b"
| "truthy (JNum i) = (i \<noteq> 0)"
| "truthy (JStr s) = (s \<noteq> [])"
| "truthy (JArr vs) = True"
| "truthy (JObj kvs) = True"

section \<open>JSON.stringify and JSON.parse\<close>

text \<open>
  The two built-ins on the fragment above. \<open>JSON_stringify\<close> follows the ECMAScript
  serialisation without indentation: a property whose value is undefined is left out, an
  undefined array element is written \<^verbatim>\<open>null\<close>, and \<^verbatim>\<open>JSON.stringify(undefined)\<close> is undefined
  (here \<open>None\<close>). \<open>JSON_parse\<close> returns \<open>None\<close> where the built-in throws a SyntaxError.
  A numeral with a fraction or an exponent and a \<^verbatim>\<open>\u\<close> escape above 255 lie outside the
  fragment and are read as failures.
\<close>

definition hex_char :: "nat \<Rightarrow> char" where
  "hex_char d = ''0123456789abcdef'' ! d"

definition escape_char :: "char \<Rightarrow> string" where
  "escape_char c =
     (if c = CHR 0x22 then [CHR 0x5C, CHR 0x22]
      else if c = CHR 0x5C then [CHR 0x5C, CHR 0x5C]
      else if c = CHR 0x08 then [CHR 0x5C, CHR ''b'']
      else if c = CHR 0x0C then [CHR 0x5C, CHR ''f'']
      else if c = CHR 0x0A then [CHR 0x5C, CHR ''n'']
      else if c = CHR 0x0D then [CHR 0x5C, CHR ''r'']
      else if c = CHR 0x09 then [CHR 0x5C, CHR ''t'']
      else if (of_char c :: nat) < 32 then
        [CHR 0x5C, CHR ''u'', CHR ''0'', CHR ''0'',
         hex_char ((of_char c :: nat) div 16), hex_char ((of_char c :: nat) mod 16)]
      else [c])"

definition quote :: "string \<Rightarrow> string" where
  "quote s = CHR 0x22 # concat (map escape_char s) @ [CHR 0x22]"

fun stringify :: "jsval \<Rightarrow> string"
  and stringify_elems :: "jsval list \<Rightarrow> string list"
  and stringify_members :: "(string \<times> jsval) list \<Rightarrow> string list" where
  "stringify JUndefined = ''null''"
| "stringify JNull = ''null''"
| "stringify (JBool b) = (if b then ''true'' else ''false'')"
| "stringify (JNum i) = show_int i"
| "stringify (JStr s) = quote s"
| "stringify (JArr vs) = ''['' @ join '','' (stringify_elems vs) @ '']''"
| "stringify (JObj kvs) = ''{'' @ join '','' (stringify_members kvs) @ ''}''"
| "stringify_elems [] = []"
| "stringify_elems (v # vs) = stringify v # stringify_elems vs"
| "stringify_members [] = []"
| "stringify_members ((k, v) # kvs) =
     (if v = JUndefined then stringify_members kvs
      else (quote k @ '':'' @ stringify v) # stringify_members kvs)"

definition JSON_stringify :: "jsval \<Rightarrow> string option" where
  "JSON_stringify v = (if v = JUndefined then None else Some (stringify v))"

definition is_ws :: "char \<Rightarrow> bool" where
  "is_ws c = (c = CHR '' '' \<or> c = CHR 0x09 \<or> c = CHR 0x0A \<or> c = CHR 0x0D)"

fun skip_ws :: "string \<Rightarrow> string" where
  "skip_ws [] = []"
| "skip_ws (c # cs) = (if is_ws c then skip_ws cs else c # cs)"

definition hex_val :: "char \<Rightarrow> nat option" where
  "hex_val c =
     (case digit_val c of
        Some d \<Rightarrow> Some d
      | None \<Rightarrow>
          if c = CHR ''a'' \<or> c = CHR ''A'' then Some 10
          else if c = CHR ''b'' \<or> c = CHR ''B'' then Some 11
          else if c = CHR ''c'' \<or> c = CHR ''C'' then Some 12
          else if c = CHR ''d'' \<or> c = CHR ''D'' then Some 13
          else if c = CHR ''e'' \<or> c = CHR ''E'' then Some 14
          else if c = CHR ''f'' \<or> c = CHR ''F'' then Some 15
          else None)"

definition parse_unicode :: "char \<Rightarrow> char \<Rightarrow> char \<Rightarrow> char \<Rightarrow> char option" where
  "parse_unicode h1 h2 h3 h4 =
     (case (hex_val h1, hex_val h2, hex_val h3, hex_val h4) of
        (Some a, Some b, Some c, Some d) \<Rightarrow>
          if a = 0 \<and> b = 0 then Some (char_of (16 * c + d)) else None
      | _ \<Rightarrow> None)"

text \<open>The characters of a string literal after its opening quote, up to the closing one.\<close>

fun parse_chars :: "string \<Rightarrow> string \<Rightarrow> (string \<times> string) option" where
  "parse_chars acc [] = None"
| "parse_chars acc [c] = (if c = CHR 0x22 then Some (acc, []) else None)"
| "parse_chars acc (c # e # es) =
     (if c = CHR 0x22 then Some (acc, e # es)
      else if c = CHR 0x5C then
        (if e = CHR 0x22 \<or> e = CHR 0x5C \<or> e = CHR ''/'' then parse_chars (acc @ [e]) es
         else if e = CHR ''b'' then parse_chars (acc @ [CHR 0x08]) es
         else if e = CHR ''f'' then parse_chars (acc @ [CHR 0x0C]) es
         else if e = CHR ''n'' then parse_chars (acc @ [CHR 0x0A]) es
         else if e = CHR ''r'' then parse_chars (acc @ [CHR 0x0D]) es
         else if e = CHR ''t'' then parse_chars (acc @ [CHR 0x09]) es
         else if e = CHR ''u'' then
           (case es of
              h1 # h2 # h3 # h4 # rest \<Rightarrow>
                (case parse_unicode h1 h2 h3 h4 of
                   Some u \<Rightarrow> parse_chars (acc @ [u]) rest
                 | None \<Rightarrow> None)
            | _ \<Rightarrow> None)
         else None)
      else if (of_char c :: nat) < 32 then None
      else parse_chars (acc @ [c]) (e # es))"

fun take_digits :: "string \<Rightarrow> string \<times> string" where
  "take_digits [] = ([], [])"
| "take_digits (c # cs) =
     (if digit_val c = None then ([], c # cs)
      else (case take_digits cs of (ds, rest) \<Rightarrow> (c # ds, rest)))"

definition parse_number :: "string \<Rightarrow> (jsval \<times> string) option" where
  "parse_number s =
     (let neg = (case s of c # cs \<Rightarrow> c = CHR ''-'' | [] \<Rightarrow> False);
          (ds, rest) = take_digits (if neg then tl s else s)
      in if ds = [] \<or> (1 < length ds \<and> hd ds = CHR ''0'') then None
         else if rest \<noteq> [] \<and> (hd rest = CHR ''.'' \<or> hd rest = CHR ''e'' \<or> hd rest = CHR ''E'')
           then None
         else (case read_digits 0 ds of
                 None \<Rightarrow> None
               | Some n \<Rightarrow> Some (JNum (if neg then - int n else int n), rest)))"

definition parse_literal :: "string \<Rightarrow> jsval \<Rightarrow> string \<Rightarrow> (jsval \<times> string) option" where
  "parse_literal lit v s =
     (if take (length lit) s = lit then Some (v, drop (length lit) s) else None)"

text \<open>A repeated key keeps its first position and takes the later value, as in JavaScript.\<close>

fun obj_put :: "string \<Rightarrow> jsval \<Rightarrow> (string \<times> jsval) list \<Rightarrow> (string \<times> jsval) list" where
  "obj_put k v [] = [(k, v)]"
| "obj_put k v ((k', v') # kvs) =
     (if k = k' then (k, v) # kvs else (k', v') # obj_put k v kvs)"

text \<open>
  Recursive descent; the first argument bounds the number of nested calls, and
  \<open>JSON_parse\<close> starts it above what a text of that length can need.
\<close>

fun parse_value :: "nat \<Rightarrow> string \<Rightarrow> (jsval \<times> string) option"
  and parse_elements :: "nat \<Rightarrow> jsval list \<Rightarrow> string \<Rightarrow> (jsval \<times> string) option"
  and parse_members :: "nat \<Rightarrow> (string \<times> jsval) list \<Rightarrow> string \<Rightarrow> (jsval \<times> string) option" where
  "parse_value 0 s = None"
| "parse_value (Suc n) s =
     (case skip_ws s of
        [] \<Rightarrow> None
      | c # cs \<Rightarrow>
          if c = CHR 0x22 then
            (case parse_chars [] cs of None \<Rightarrow> None | Some (str, rest) \<Rightarrow> Some (JStr str, rest))
          else if c = CHR ''['' then
            (case skip_ws cs of
               [] \<Rightarrow> None
             | d # ds \<Rightarrow> if d = CHR '']'' then Some (JArr [], ds) else parse_elements n [] cs)
          else if c = CHR ''{'' then
            (case skip_ws cs of
               [] \<Rightarrow> None
             | d # ds \<Rightarrow> if d = CHR ''}'' then Some (JObj [], ds) else parse_members n [] cs)
          else if c = CHR ''n'' then parse_literal ''null'' JNull (c # cs)
          else if c = CHR ''t'' then parse_literal ''true'' (JBool True) (c # cs)
          else if c = CHR ''f'' then parse_literal ''false'' (JBool False) (c # cs)
          else parse_number (c # cs))"
| "parse_elements 0 acc s = None"
| "parse_elements (Suc n) acc s =
     (case parse_value n s of
        None \<Rightarrow> None
      | Some (v, rest) \<Rightarrow>
          (case skip_ws rest of
             [] \<Rightarrow> None
           | c # cs \<Rightarrow>
               if c = CHR '','' then parse_elements n (acc @ [v]) cs
               else if c = CHR '']'' then Some (JArr (acc @ [v]), cs)
               else None))"
| "parse_members 0 acc s = None"
| "parse_members (Suc n) acc s =
     (case skip_ws s of
        [] \<Rightarrow> None
      | q # qs \<Rightarrow>
          if q \<noteq> CHR 0x22 then None
          else (case parse_chars [] qs of
                  None \<Rightarrow> None
                | Some (k, rest) \<Rightarrow>
                    (case skip_ws rest of
                       [] \<Rightarrow> None
                     | c # cs \<Rightarrow>
                         if c \<noteq> CHR '':'' then None
                         else (case parse_value n cs of
                                 None \<Rightarrow> None
                               | Some (v, rest') \<Rightarrow>
                                   (case skip_ws rest' of
                                      [] \<Rightarrow> None
                                    | d # ds \<Rightarrow>
                                        if d = CHR '','' then parse_members n (obj_put k v acc) ds
                                        else if d = CHR ''}'' then Some (JObj (obj_put k v acc), ds)
                                        else None)))))"

definition JSON_parse :: "string \<Rightarrow> jsval option" where
  "JSON_parse s =
     (case parse_value (2 * length s + 2) s of
        None \<Rightarrow> None
      | Some (v, rest) \<Rightarrow> if skip_ws rest = [] then Some v else None)"

section \<open>The cache backend\<close>

text \<open>
  Modelled from the spec: the key-value store and its client library are not part of the
  repository. The spec gives the wire contract (GET, SETEX, DEL with one key or a batch,
  EXISTS, and SCAN with a resumable cursor, a glob-style match pattern and a page-size
  hint, which ends when the cursor is back at its initial value \<^verbatim>\<open>'0'\<close>).

  The keyspace is a table of slots. SETEX overwrites the slot of its key or appends one, a
  deleted key leaves its slot empty, and SCAN visits \<open>count\<close> slots from the position its
  cursor names: so a cursor stays valid across the deletes between two pages. \<open>fault\<close> is
  the condition of the connection: while it is set, every command raises that error.
  \<open>calls\<close> records the commands the client was asked to send. Expiry needs a clock and is
  not modelled: the time to live is stored with the entry.
\<close>

datatype command =
    GET string
  | SETEX string nat string
  | DEL "string list"
  | EXISTS string
  | SCAN string string nat

type_synonym slot = "(string \<times> nat \<times> string) option"

record redis_client =
  slots :: "slot list"
  fault :: "js_error option"
  calls :: "command list"

fun slot_key :: "slot \<Rightarrow> string option" where
  "slot_key None = None"
| "slot_key (Some (k, t, v)) = Some k"

fun lookup_slot :: "string \<Rightarrow> slot list \<Rightarrow> string option" where
  "lookup_slot k [] = None"
| "lookup_slot k (None # ss) = lookup_slot k ss"
| "lookup_slot k (Some (k', t, v) # ss) = (if k = k' then Some v else lookup_slot k ss)"

fun store_slot :: "string \<Rightarrow> nat \<Rightarrow> string \<Rightarrow> slot list \<Rightarrow> slot list" where
  "store_slot k t v [] = [Some (k, t, v)]"
| "store_slot k t v (None # ss) = None # store_slot k t v ss"
| "store_slot k t v (Some (k', t', v') # ss) =
     (if k = k' then Some (k, t, v) # ss else Some (k', t', v') # store_slot k t v ss)"

definition clear_slot :: "string \<Rightarrow> slot list \<Rightarrow> slot list" where
  "clear_slot k ss = map (\<lambda>s. if slot_key s = Some k then None else s) ss"

fun del_keys :: "string list \<Rightarrow> slot list \<Rightarrow> nat \<times> slot list" where
  "del_keys [] ss = (0, ss)"
| "del_keys (k # ks) ss =
     (if lookup_slot k ss = None then del_keys ks ss
      else (case del_keys ks (clear_slot k ss) of (n, ss') \<Rightarrow> (Suc n, ss')))"

text \<open>Glob matching: \<^verbatim>\<open>*\<close> stands for any run of characters, \<^verbatim>\<open>?\<close> for any one.\<close>

fun glob_match :: "string \<Rightarrow> string \<Rightarrow> bool" where
  "glob_match [] [] = True"
| "glob_match [] (c # cs) = False"
| "glob_match (p # ps) [] = (p = CHR ''*'' \<and> glob_match ps [])"
| "glob_match (p # ps) (c # cs) =
     (if p = CHR ''*'' then glob_match ps (c # cs) \<or> glob_match (p # ps) cs
      else (p = CHR ''?'' \<or> p = c) \<and> glob_match ps cs)"

fun keys_of :: "slot list \<Rightarrow> string list" where
  "keys_of [] = []"
| "keys_of (None # ss) = keys_of ss"
| "keys_of (Some (k, t, v) # ss) = k # keys_of ss"

definition page_keys :: "string \<Rightarrow> slot list \<Rightarrow> string list" where
  "page_keys pat page = filter (glob_match pat) (keys_of page)"

definition sent :: "command \<Rightarrow> redis_client \<Rightarrow> redis_client" where
  "sent c r = r\<lparr>calls := calls r @ [c]\<rparr>"

definition redis_get :: "string \<Rightarrow> redis_client \<Rightarrow> (js_error + string option) \<times> redis_client" where
  "redis_get k r =
     (case fault r of
        Some e \<Rightarrow> (Inl e, sent (GET k) r)
      | None \<Rightarrow> (Inr (lookup_slot k (slots r)), sent (GET k) r))"

text \<open>
  The client refuses a value that is not a string before anything is sent; the store
  refuses a time to live of zero.
\<close>

definition redis_setEx ::
  "string \<Rightarrow> nat \<Rightarrow> string option \<Rightarrow> redis_client \<Rightarrow> (js_error + unit) \<times> redis_client" where
  "redis_setEx k t val r =
     (case val of
        None \<Rightarrow> (Inl (TypeError ''Invalid argument type''), r)
      | Some v \<Rightarrow>
          (case fault r of
             Some e \<Rightarrow> (Inl e, sent (SETEX k t v) r)
           | None \<Rightarrow>
               if t = 0 then (Inl (RedisError None ''ERR invalid expire time''), sent (SETEX k t v) r)
               else (Inr (), sent (SETEX k t v) (r\<lparr>slots := store_slot k t v (slots r)\<rparr>))))"

definition redis_del :: "string list \<Rightarrow> redis_client \<Rightarrow> (js_error + nat) \<times> redis_client" where
  "redis_del ks r =
     (case fault r of
        Some e \<Rightarrow> (Inl e, sent (DEL ks) r)
      | None \<Rightarrow>
          if ks = [] then (Inl (RedisError None ''ERR wrong number of arguments''), sent (DEL ks) r)
          else (case del_keys ks (slots r) of
                  (n, ss) \<Rightarrow> (Inr n, sent (DEL ks) (r\<lparr>slots := ss\<rparr>))))"

definition redis_exists :: "string \<Rightarrow> redis_client \<Rightarrow> (js_error + nat) \<times> redis_client" where
  "redis_exists k r =
     (case fault r of
        Some e \<Rightarrow> (Inl e, sent (EXISTS k) r)
      | None \<Rightarrow> (Inr (if lookup_slot k (slots r) = None then 0 else 1), sent (EXISTS k) r))"

definition redis_scan ::
  "string \<Rightarrow> string \<Rightarrow> nat \<Rightarrow> redis_client \<Rightarrow> (js_error + string \<times> string list) \<times> redis_client" where
  "redis_scan cursor pat count r =
     (case fault r of
        Some e \<Rightarrow> (Inl e, sent (SCAN cursor pat count) r)
      | None \<Rightarrow>
          (case read_nat cursor of
             None \<Rightarrow> (Inl (RedisError None ''ERR invalid cursor''), sent (SCAN cursor pat count) r)
           | Some i \<Rightarrow>
               if count = 0
               then (Inl (RedisError None ''ERR syntax error''), sent (SCAN cursor pat count) r)
               else (Inr (if length (slots r) \<le> i + count then ''0'' else show_nat (i + count),
                          page_keys pat (take count (drop i (slots r)))),
                     sent (SCAN cursor pat count) r)))"

section \<open>CacheService\<close>

text \<open>
  \<^verbatim>\<open>apps/api/src/services/CacheService.ts\<close>. The state of the service is the client it was
  built with (\<open>None\<close> for \<^verbatim>\<open>new CacheService(null)\<close>), the flag \<^verbatim>\<open>isAvailable\<close> and the
  default time to live \<^verbatim>\<open>this.ttl.default\<close>. Every method returns its result, or the error
  it throws, with the state it leaves. Logging is left out: the logger is taken to be in
  scope and not to throw.
\<close>

record cache_service =
  redis :: "redis_client option"
  isAvailable :: bool
  ttl_default :: nat

definition ttl_short :: nat where "ttl_short = 300"
definition ttl_medium :: nat where "ttl_medium = 1800"
definition ttl_long :: nat where "ttl_long = 7200"

text \<open>The constructor; \<open>cfgTTL\<close> is \<^verbatim>\<open>this.config.getCacheTTL()\<close>.\<close>

definition CacheService :: "redis_client option \<Rightarrow> nat \<Rightarrow> cache_service" where
  "CacheService redisClient cfgTTL =
     \<lparr>redis = redisClient,
      isAvailable = (redisClient \<noteq> None),
      ttl_default = (if cfgTTL = 0 then 1800 else cfgTTL)\<rparr>"

definition isHealthy :: "cache_service \<Rightarrow> bool" where
  "isHealthy s = (isAvailable s \<and> redis s \<noteq> None)"

text \<open>
  \<^verbatim>\<open>_handleError\<close>: a connection error marks the service unavailable and throws
  \<^verbatim>\<open>CacheUnavailableError\<close>; any other error gives \<^verbatim>\<open>null\<close>.
\<close>

definition handleError :: "string \<Rightarrow> js_error \<Rightarrow> cache_service \<Rightarrow> (js_error + jsval) \<times> cache_service" where
  "handleError operation e s =
     (if connection_error e
      then (Inl CacheUnavailableError, s\<lparr>isAvailable := False\<rparr>)
      else (Inr JNull, s))"

definition get :: "string \<Rightarrow> cache_service \<Rightarrow> (js_error + jsval) \<times> cache_service" where
  "get key s =
     (case redis s of
        None \<Rightarrow> (Inr JNull, s)
      | Some r \<Rightarrow>
          if \<not> isAvailable s then (Inr JNull, s)
          else (case redis_get key r of
                  (Inl e, r') \<Rightarrow> handleError ''GET'' e (s\<lparr>redis := Some r'\<rparr>)
                | (Inr None, r') \<Rightarrow> (Inr JNull, s\<lparr>redis := Some r'\<rparr>)
                | (Inr (Some result), r') \<Rightarrow>
                    if result = [] then (Inr JNull, s\<lparr>redis := Some r'\<rparr>)
                    else (case JSON_parse result of
                            Some v \<Rightarrow> (Inr v, s\<lparr>redis := Some r'\<rparr>)
                          | None \<Rightarrow>
                              handleError ''GET'' (SyntaxError ''Unexpected token'')
                                (s\<lparr>redis := Some r'\<rparr>))))"

text \<open>After \<^verbatim>\<open>_handleError\<close> returns, \<^verbatim>\<open>set\<close>, \<^verbatim>\<open>del\<close> and \<^verbatim>\<open>exists\<close> return \<^verbatim>\<open>false\<close>.\<close>

definition handled_false :: "(js_error + jsval) \<times> cache_service \<Rightarrow> (js_error + bool) \<times> cache_service" where
  "handled_false h = (case h of (Inl e, s) \<Rightarrow> (Inl e, s) | (Inr v, s) \<Rightarrow> (Inr False, s))"

text \<open>
  \<^verbatim>\<open>typeof value === 'string' ? value : JSON.stringify(value)\<close> and
  \<^verbatim>\<open>ttl || this.ttl.default\<close>.
\<close>

definition cacheValue :: "jsval \<Rightarrow> string option" where
  "cacheValue val = (case val of JStr str \<Rightarrow> Some str | _ \<Rightarrow> JSON_stringify val)"

definition cacheTtl :: "nat option \<Rightarrow> cache_service \<Rightarrow> nat" where
  "cacheTtl ttl s =
     (case ttl of None \<Rightarrow> ttl_default s | Some t \<Rightarrow> if t = 0 then ttl_default s else t)"

definition set_cache ::
  "string \<Rightarrow> jsval \<Rightarrow> nat option \<Rightarrow> cache_service \<Rightarrow> (js_error + bool) \<times> cache_service" where
  "set_cache key val ttl s =
     (case redis s of
        None \<Rightarrow> (Inr False, s)
      | Some r \<Rightarrow>
          if \<not> isAvailable s then (Inr False, s)
          else (case redis_setEx key (cacheTtl ttl s) (cacheValue val) r of
                  (Inl e, r') \<Rightarrow> handled_false (handleError ''SET'' e (s\<lparr>redis := Some r'\<rparr>))
                | (Inr ok, r') \<Rightarrow> (Inr True, s\<lparr>redis := Some r'\<rparr>)))"

definition del :: "string \<Rightarrow> cache_service \<Rightarrow> (js_error + bool) \<times> cache_service" where
  "del key s =
     (case redis s of
        None \<Rightarrow> (Inr False, s)
      | Some r \<Rightarrow>
          if \<not> isAvailable s then (Inr False, s)
          else (case redis_del [key] r of
                  (Inl e, r') \<Rightarrow> handled_false (handleError ''DEL'' e (s\<lparr>redis := Some r'\<rparr>))
                | (Inr n, r') \<Rightarrow> (Inr (0 < n), s\<lparr>redis := Some r'\<rparr>)))"

definition exists :: "string \<Rightarrow> cache_service \<Rightarrow> (js_error + bool) \<times> cache_service" where
  "exists key s =
     (case redis s of
        None \<Rightarrow> (Inr False, s)
      | Some r \<Rightarrow>
          if \<not> isAvailable s then (Inr False, s)
          else (case redis_exists key r of
                  (Inl e, r') \<Rightarrow> handled_false (handleError ''EXISTS'' e (s\<lparr>redis := Some r'\<rparr>))
                | (Inr n, r') \<Rightarrow> (Inr (0 < n), s\<lparr>redis := Some r'\<rparr>)))"

subsection \<open>Facts about numerals and the slot table\<close>

lemma digit_val_digit_char: "d < 10 \<Longrightarrow> digit_val (digit_char d) = Some d"
proof -
  assume "d < 10"
  then have "d \<in> {0, 1, 2, 3, 4, 5, 6, 7, 8, 9}"
    by auto
  then show ?thesis
    by (auto simp: digit_char_def digit_val_def)
qed

lemma read_digits_snoc:
  "read_digits a (xs @ [c]) =
     (case read_digits a xs of
        None \<Rightarrow> None
      | Some m \<Rightarrow> (case digit_val c of None \<Rightarrow> None | Some d \<Rightarrow> Some (10 * m + d)))"
  by (induction xs arbitrary: a) (auto split: option.splits)

lemma read_digits_show_nat: "read_digits 0 (show_nat n) = Some n"
proof (induction n rule: show_nat.induct)
  case (1 n)
  show ?case
  proof (cases "n < 10")
    case True
    then show ?thesis
      by (subst show_nat.simps) (simp add: digit_val_digit_char)
  next
    case False
    then have "read_digits 0 (show_nat (n div 10)) = Some (n div 10)"
      using "1" by simp
    with False show ?thesis
      by (subst show_nat.simps) (simp add: read_digits_snoc digit_val_digit_char)
  qed
qed

lemma show_nat_not_Nil: "show_nat n \<noteq> []"
  by (subst show_nat.simps) simp

lemma read_nat_show_nat: "read_nat (show_nat n) = Some n"
  by (simp add: read_nat_def show_nat_not_Nil read_digits_show_nat)

lemma read_nat_zero: "read_nat ''0'' = Some 0"
  by (simp add: read_nat_def digit_val_def)

lemma show_nat_eq_zero: "(show_nat n = ''0'') = (n = 0)"
proof
  assume "show_nat n = ''0''"
  then have "read_nat (show_nat n) = read_nat ''0''" by simp
  then show "n = 0" by (simp add: read_nat_show_nat read_nat_zero)
next
  assume "n = 0"
  then show "show_nat n = ''0''"
    by (subst show_nat.simps) (simp add: digit_char_def)
qed

lemma length_clear_slot: "length (clear_slot k ss) = length ss"
  by (simp add: clear_slot_def)

lemma length_del_keys: "length (snd (del_keys ks ss)) = length ss"
proof (induction ks arbitrary: ss)
  case Nil
  show ?case by simp
next
  case (Cons k ks)
  show ?case
  proof (cases "lookup_slot k ss = None")
    case True
    then show ?thesis using Cons by simp
  next
    case False
    have "length (snd (del_keys ks (clear_slot k ss))) = length ss"
      using Cons [of "clear_slot k ss"] by (simp add: length_clear_slot)
    with False show ?thesis
      by (auto split: prod.splits)
  qed
qed

subsection \<open>Pattern invalidation\<close>

text \<open>
  The \<^verbatim>\<open>do ... while (cursor !== '0')\<close> loop of \<^verbatim>\<open>invalidateCachePattern\<close>: one SCAN
  per round, one DEL of the page's keys when the page has any. It ends because every
  round that goes on moves the cursor forward in a table whose length the deletes keep.
\<close>

definition batchSize :: nat where "batchSize = 100"

lemma redis_scan_Inr:
  assumes "redis_scan cursor pat count r = (Inr (c', ks), r1)"
  shows "\<exists>i. read_nat cursor = Some i \<and> count \<noteq> 0 \<and> fault r = None
            \<and> c' = (if length (slots r) \<le> i + count then ''0'' else show_nat (i + count))
            \<and> ks = page_keys pat (take count (drop i (slots r)))
            \<and> r1 = sent (SCAN cursor pat count) r"
  using assms by (auto simp: redis_scan_def split: option.splits if_splits)

lemma redis_del_Inr:
  assumes "redis_del ks r = (Inr n, r')"
  shows "fault r = None \<and> ks \<noteq> [] \<and> n = fst (del_keys ks (slots r))
         \<and> r' = sent (DEL ks) (r\<lparr>slots := snd (del_keys ks (slots r))\<rparr>)"
  using assms by (auto simp: redis_del_def split: option.splits if_splits prod.splits)

lemma slots_sent: "slots (sent c r) = slots r"
  by (simp add: sent_def)

function scan_loop :: "string \<Rightarrow> string \<Rightarrow> nat \<Rightarrow> redis_client \<Rightarrow> (js_error + nat) \<times> redis_client" where
  "scan_loop pat cursor deletedCount r =
     (case redis_scan cursor pat batchSize r of
        (Inl e, r1) \<Rightarrow> (Inl e, r1)
      | (Inr (cursor', keys), r1) \<Rightarrow>
          (case (if keys \<noteq> [] then redis_del keys r1 else (Inr 0, r1)) of
             (Inl e, r2) \<Rightarrow> (Inl e, r2)
           | (Inr deleteResult, r2) \<Rightarrow>
               if cursor' \<noteq> ''0''
               then scan_loop pat cursor' (deletedCount + deleteResult) r2
               else (Inr (deletedCount + deleteResult), r2)))"
  by pat_completeness auto
termination
proof (relation "measure (\<lambda>(pat, cursor, deletedCount, r). length (slots r) - the (read_nat cursor))")
  show "wf (measure (\<lambda>(pat, cursor, deletedCount, r). length (slots r) - the (read_nat cursor)))"
    by simp
next
  fix pat cursor :: string and deletedCount :: nat and r :: redis_client
    and x and r1 and xa and cursor' and keys and xb and r2 and deleteResult
  assume scan: "(x, r1) = redis_scan cursor pat batchSize r"
    and x: "x = Inr xa" and xa: "(cursor', keys) = xa"
    and del: "(xb, r2) = (if keys \<noteq> [] then redis_del keys r1 else (Inr 0, r1))"
    and xb: "xb = Inr deleteResult" and more: "cursor' \<noteq> ''0''"
  show "((pat, cursor', deletedCount + deleteResult, r2), (pat, cursor, deletedCount, r))
        \<in> measure (\<lambda>(pat, cursor, deletedCount, r). length (slots r) - the (read_nat cursor))"
  proof -
    from scan x xa obtain i where i: "read_nat cursor = Some i"
      and c': "cursor' = (if length (slots r) \<le> i + batchSize then ''0'' else show_nat (i + batchSize))"
      and r1: "r1 = sent (SCAN cursor pat batchSize) r"
      using redis_scan_Inr [of cursor pat batchSize r cursor' keys r1] by auto
    from c' more have lt: "i + batchSize < length (slots r)" and c: "cursor' = show_nat (i + batchSize)"
      by (auto split: if_splits)
    have len: "length (slots r2) = length (slots r)"
    proof (cases "keys = []")
      case True
      with del r1 show ?thesis by (simp add: slots_sent)
    next
      case False
      with del xb have "redis_del keys r1 = (Inr deleteResult, r2)" by simp
      from redis_del_Inr [OF this] r1 show ?thesis
        by (simp add: slots_sent length_del_keys)
    qed
    from lt len i c show ?thesis
      by (simp add: read_nat_show_nat batchSize_def)
  qed
qed

declare scan_loop.simps [simp del]

record invalidation =
  deleted :: nat
  pattern :: "string option"
  error :: "string option"
  success :: "bool option"

definition unavailable :: invalidation where
  "unavailable =
     \<lparr>deleted = 0, pattern = None, error = Some ''Cache service unavailable'', success = None\<rparr>"

definition invalidateCachePattern ::
  "string \<Rightarrow> cache_service \<Rightarrow> (js_error + invalidation) \<times> cache_service" where
  "invalidateCachePattern pat s =
     (case redis s of
        None \<Rightarrow> (Inr unavailable, s)
      | Some r \<Rightarrow>
          if \<not> isAvailable s then (Inr unavailable, s)
          else (case scan_loop pat ''0'' 0 r of
                  (Inr deletedCount, r') \<Rightarrow>
                    (Inr \<lparr>deleted = deletedCount, pattern = Some pat, error = None,
                          success = Some True\<rparr>,
                     s\<lparr>redis := Some r'\<rparr>)
                | (Inl e, r') \<Rightarrow>
                    (case handleError ''INVALIDATE_PATTERN'' e (s\<lparr>redis := Some r'\<rparr>) of
                       (Inl e', s') \<Rightarrow> (Inl e', s')
                     | (Inr v, s') \<Rightarrow>
                         (Inr \<lparr>deleted = 0, pattern = Some pat, error = Some (err_message e),
                               success = Some False\<rparr>,
                          s'))))"

subsection \<open>Key naming and the user-specific operations\<close>

text \<open>
  \<^verbatim>\<open>_hashFilters\<close>: the keys of the filter object, sorted, each joined to its value.
  The own properties of an array or a string are its indices.
\<close>

definition own_entries :: "jsval \<Rightarrow> (string \<times> jsval) list" where
  "own_entries v =
     (case v of
        JObj kvs \<Rightarrow> kvs
      | JArr vs \<Rightarrow> zip (map show_nat [0..<length vs]) vs
      | JStr str \<Rightarrow> zip (map show_nat [0..<length str]) (map (\<lambda>c. JStr [c]) str)
      | _ \<Rightarrow> [])"

definition property :: "(string \<times> jsval) list \<Rightarrow> string \<Rightarrow> jsval" where
  "property kvs k = (case map_of kvs k of None \<Rightarrow> JUndefined | Some v \<Rightarrow> v)"

definition hashFilters :: "jsval \<Rightarrow> string" where
  "hashFilters filters =
     (if \<not> truthy filters \<or> \<not> (case filters of JObj kvs \<Rightarrow> True | JArr vs \<Rightarrow> True | _ \<Rightarrow> False)
      then ''default''
      else
        let sortedKeys = sort (map fst (own_entries filters));
            hashParts = map (\<lambda>key. key @ '':'' @ js_String (property (own_entries filters) key)) sortedKeys;
            joined = join ''|'' hashParts
        in if joined = [] then ''default'' else joined)"

definition key_userTasks :: "nat \<Rightarrow> jsval \<Rightarrow> string" where
  "key_userTasks userId filters = ''user:'' @ show_nat userId @ '':tasks:'' @ hashFilters filters"

definition key_userTask :: "nat \<Rightarrow> nat \<Rightarrow> string" where
  "key_userTask userId taskId = ''user:'' @ show_nat userId @ '':task:'' @ show_nat taskId"

definition key_userStats :: "nat \<Rightarrow> string" where
  "key_userStats userId = ''user:'' @ show_nat userId @ '':stats''"

definition or_ttl :: "nat option \<Rightarrow> nat \<Rightarrow> nat option" where
  "or_ttl ttl d = (case ttl of None \<Rightarrow> Some d | Some t \<Rightarrow> if t = 0 then Some d else Some t)"

definition getUserTasks_cached :: "nat \<Rightarrow> jsval \<Rightarrow> cache_service \<Rightarrow> (js_error + jsval) \<times> cache_service" where
  "getUserTasks_cached userId filters s = get (key_userTasks userId filters) s"

definition setUserTasks ::
  "nat \<Rightarrow> jsval \<Rightarrow> jsval \<Rightarrow> nat option \<Rightarrow> cache_service \<Rightarrow> (js_error + bool) \<times> cache_service" where
  "setUserTasks userId filters data ttl s =
     set_cache (key_userTasks userId filters) data (or_ttl ttl ttl_short) s"

definition getUserTask :: "nat \<Rightarrow> nat \<Rightarrow> cache_service \<Rightarrow> (js_error + jsval) \<times> cache_service" where
  "getUserTask userId taskId s = get (key_userTask userId taskId) s"

definition setUserTask ::
  "nat \<Rightarrow> nat \<Rightarrow> jsval \<Rightarrow> nat option \<Rightarrow> cache_service \<Rightarrow> (js_error + bool) \<times> cache_service" where
  "setUserTask userId taskId data ttl s =
     set_cache (key_userTask userId taskId) data (or_ttl ttl ttl_medium) s"

definition invalidateUserTasksCache_service ::
  "nat \<Rightarrow> cache_service \<Rightarrow> (js_error + invalidation) \<times> cache_service" where
  "invalidateUserTasksCache_service userId s =
     invalidateCachePattern (''user:'' @ show_nat userId @ '':tasks:*'') s"

section \<open>DataAccessLayer\<close>

subsection \<open>Transactions\<close>







subsection \<open>The relational store\<close>

text \<open>
  Modelled from the spec and from the SQL text of the statements in the repository: the
  store, its driver and the schema are not part of it. A statement is one of the eight
  statements \<^verbatim>\<open>TaskRepository\<close> builds, with its parameters; the sort column and direction
  of the list query are the text the repository splices into it. Two tables, tasks and
  categories; \<^verbatim>\<open>tasks.category_id\<close> is a foreign key of \<^verbatim>\<open>categories.id\<close>
  (\<^verbatim>\<open>ON DELETE SET NULL\<close>, as the categories route says), a new task is not completed and
  gets the next id and the current time. \<open>db_fault\<close> is the condition of the store: while it
  is set, every statement raises that error. \<open>statements\<close> records the statements the pool
  was asked to run.
\<close>

datatype sql_int = SqlInt int | SqlNaN

record task_update =
  u_title :: "string option"
  u_description :: "string option option"
  u_completed :: "bool option"
  u_priority :: "string option"
  u_due_date :: "nat option option"
  u_category_id :: "nat option option"

datatype statement =
    SelectUserTasks nat "bool option" "string option" "sql_int option" string string sql_int sql_int
  | CountUserTasks nat "bool option" "string option" "sql_int option"
  | SelectTaskById nat nat
  | InsertTask string "string option" string "nat option" "nat option" nat
  | UpdateTask task_update nat nat
  | DeleteTask nat nat
  | SelectTaskStats nat
  | SelectCategoryOwnership nat nat

record task_row =
  t_id :: nat
  t_user_id :: nat
  t_title :: string
  t_description :: "string option"
  t_completed :: bool
  t_priority :: string
  t_due_date :: "nat option"
  t_category_id :: "nat option"
  t_created_at :: nat
  t_updated_at :: nat

record category_row =
  c_id :: nat
  c_user_id :: nat
  c_name :: string
  c_color :: string

record database =
  tasks :: "task_row list"
  categories :: "category_row list"
  next_task_id :: nat
  now :: nat
  db_fault :: "(string \<times> string) option"
  statements :: "statement list"

definition nullable :: "('a \<Rightarrow> jsval) \<Rightarrow> 'a option \<Rightarrow> jsval" where
  "nullable f x = (case x of None \<Rightarrow> JNull | Some y \<Rightarrow> f y)"

definition num :: "nat \<Rightarrow> jsval" where
  "num n = JNum (int n)"

text \<open>The eight columns of \<^verbatim>\<open>RETURNING\<close>, and the eleven of the joined \<^verbatim>\<open>SELECT\<close>.\<close>

definition returned_columns :: "task_row \<Rightarrow> (string \<times> jsval) list" where
  "returned_columns t =
     [(''id'', num (t_id t)), (''title'', JStr (t_title t)),
      (''description'', nullable JStr (t_description t)), (''completed'', JBool (t_completed t)),
      (''priority'', JStr (t_priority t)), (''due_date'', nullable num (t_due_date t)),
      (''created_at'', num (t_created_at t)), (''updated_at'', num (t_updated_at t))]"

definition category_of :: "database \<Rightarrow> task_row \<Rightarrow> category_row option" where
  "category_of db t =
     (case t_category_id t of
        None \<Rightarrow> None
      | Some c \<Rightarrow> find (\<lambda>cat. c_id cat = c) (categories db))"

definition joined_row :: "database \<Rightarrow> task_row \<Rightarrow> jsval" where
  "joined_row db t =
     JObj (returned_columns t @
       [(''category_name'', nullable (\<lambda>cat. JStr (c_name cat)) (category_of db t)),
        (''category_color'', nullable (\<lambda>cat. JStr (c_color cat)) (category_of db t)),
        (''category_id'', nullable (\<lambda>cat. num (c_id cat)) (category_of db t))])"

text \<open>The \<^verbatim>\<open>WHERE\<close> clause of the list and count queries.\<close>

definition task_matches :: "nat \<Rightarrow> bool option \<Rightarrow> string option \<Rightarrow> nat option \<Rightarrow> task_row \<Rightarrow> bool" where
  "task_matches uid completed priority category t =
     (t_user_id t = uid
      \<and> (case completed of None \<Rightarrow> True | Some b \<Rightarrow> t_completed t = b)
      \<and> (case priority of None \<Rightarrow> True | Some p \<Rightarrow> t_priority t = p)
      \<and> (case category of None \<Rightarrow> True | Some c \<Rightarrow> t_category_id t = Some c))"

text \<open>
  \<^verbatim>\<open>ORDER BY\<close>: a stable insertion sort on the column; a null due date sorts as the largest
  value, as in PostgreSQL.
\<close>

definition column_le :: "string \<Rightarrow> task_row \<Rightarrow> task_row \<Rightarrow> bool" where
  "column_le col a b =
     (if col = ''created_at'' then t_created_at a \<le> t_created_at b
      else if col = ''due_date'' then
        (case (t_due_date a, t_due_date b) of
           (x, None) \<Rightarrow> True
         | (None, Some y) \<Rightarrow> False
         | (Some x, Some y) \<Rightarrow> x \<le> y)
      else if col = ''priority'' then t_priority a \<le> t_priority b
      else t_title a \<le> t_title b)"

fun insert_by :: "('a \<Rightarrow> 'a \<Rightarrow> bool) \<Rightarrow> 'a \<Rightarrow> 'a list \<Rightarrow> 'a list" where
  "insert_by le x [] = [x]"
| "insert_by le x (y # ys) = (if le x y then x # y # ys else y # insert_by le x ys)"

definition order_by :: "string \<Rightarrow> string \<Rightarrow> task_row list \<Rightarrow> task_row list" where
  "order_by col dir ts =
     foldr (insert_by (if dir = ''DESC'' then (\<lambda>a b. column_le col b a) else column_le col)) ts []"

definition sortable_columns :: "string list" where
  "sortable_columns = [''created_at'', ''due_date'', ''priority'', ''title'']"

definition count_where :: "(task_row \<Rightarrow> bool) \<Rightarrow> task_row list \<Rightarrow> jsval" where
  "count_where P ts = num (length (filter P ts))"

definition apply_update :: "task_update \<Rightarrow> nat \<Rightarrow> task_row \<Rightarrow> task_row" where
  "apply_update u time t =
     t\<lparr>t_title := (case u_title u of None \<Rightarrow> t_title t | Some x \<Rightarrow> x),
       t_description := (case u_description u of None \<Rightarrow> t_description t | Some x \<Rightarrow> x),
       t_completed := (case u_completed u of None \<Rightarrow> t_completed t | Some x \<Rightarrow> x),
       t_priority := (case u_priority u of None \<Rightarrow> t_priority t | Some x \<Rightarrow> x),
       t_due_date := (case u_due_date u of None \<Rightarrow> t_due_date t | Some x \<Rightarrow> x),
       t_category_id := (case u_category_id u of None \<Rightarrow> t_category_id t | Some x \<Rightarrow> x),
       t_updated_at := time\<rparr>"

definition no_such_category :: "database \<Rightarrow> nat option \<Rightarrow> bool" where
  "no_such_category db c = (case c of None \<Rightarrow> False | Some i \<Rightarrow> i \<notin> c_id ` set (categories db))"

definition foreign_key_violation :: js_error where
  "foreign_key_violation = DatabaseError ''23503'' ''violates foreign key constraint''"

definition run :: "statement \<Rightarrow> database \<Rightarrow> (js_error + jsval list) \<times> database" where
  "run st db =
     (case st of
        SelectUserTasks uid completed priority category col dir lim off \<Rightarrow>
          (case (category, lim, off) of
             (Some SqlNaN, _, _) \<Rightarrow> (Inl (DatabaseError ''22P02'' ''invalid input syntax for type integer''), db)
           | (_, SqlNaN, _) \<Rightarrow> (Inl (DatabaseError ''22P02'' ''invalid input syntax for type integer''), db)
           | (_, _, SqlNaN) \<Rightarrow> (Inl (DatabaseError ''22P02'' ''invalid input syntax for type integer''), db)
           | (_, SqlInt l, SqlInt off') \<Rightarrow>
               if col \<notin> set sortable_columns then (Inl (DatabaseError ''42703'' ''column does not exist''), db)
               else if dir \<noteq> ''ASC'' \<and> dir \<noteq> ''DESC'' then (Inl (DatabaseError ''42601'' ''syntax error''), db)
               else if l < 0 then (Inl (DatabaseError ''2201W'' ''LIMIT must not be negative''), db)
               else if off' < 0 then (Inl (DatabaseError ''2201X'' ''OFFSET must not be negative''), db)
               else
                 (Inr (map (joined_row db)
                        (take (nat l) (drop (nat off')
                           (order_by col dir
                              (filter (\<lambda>t. case category of
                                          Some (SqlInt c) \<Rightarrow> 0 \<le> c \<and> task_matches uid completed priority (Some (nat c)) t
                                        | _ \<Rightarrow> task_matches uid completed priority None t)
                                 (tasks db)))))),
                  db))
      | CountUserTasks uid completed priority category \<Rightarrow>
          (case category of
             Some SqlNaN \<Rightarrow> (Inl (DatabaseError ''22P02'' ''invalid input syntax for type integer''), db)
           | Some (SqlInt c) \<Rightarrow>
               (Inr [JObj [(''total'',
                       count_where (\<lambda>t. 0 \<le> c \<and> task_matches uid completed priority (Some (nat c)) t) (tasks db))]],
                db)
           | None \<Rightarrow>
               (Inr [JObj [(''total'', count_where (task_matches uid completed priority None) (tasks db))]], db))
      | SelectTaskById tid uid \<Rightarrow>
          (Inr (map (joined_row db) (filter (\<lambda>t. t_id t = tid \<and> t_user_id t = uid) (tasks db))), db)
      | InsertTask title description priority due_date category uid \<Rightarrow>
          if no_such_category db category then (Inl foreign_key_violation, db)
          else
            let t = \<lparr>t_id = next_task_id db, t_user_id = uid, t_title = title,
                     t_description = description, t_completed = False, t_priority = priority,
                     t_due_date = due_date, t_category_id = category,
                     t_created_at = now db, t_updated_at = now db\<rparr>
            in (Inr [JObj (returned_columns t)],
                db\<lparr>tasks := tasks db @ [t], next_task_id := Suc (next_task_id db)\<rparr>)
      | UpdateTask u tid uid \<Rightarrow>
          if filter (\<lambda>t. t_id t = tid \<and> t_user_id t = uid) (tasks db) = [] then (Inr [], db)
          else if (case u_category_id u of None \<Rightarrow> False | Some c \<Rightarrow> no_such_category db c)
            then (Inl foreign_key_violation, db)
          else
            (Inr (map (\<lambda>t. JObj (returned_columns (apply_update u (now db) t)))
                    (filter (\<lambda>t. t_id t = tid \<and> t_user_id t = uid) (tasks db))),
             db\<lparr>tasks := map (\<lambda>t. if t_id t = tid \<and> t_user_id t = uid
                                    then apply_update u (now db) t else t) (tasks db)\<rparr>)
      | DeleteTask tid uid \<Rightarrow>
          (Inr (map (\<lambda>t. JObj [(''id'', num (t_id t))])
                  (filter (\<lambda>t. t_id t = tid \<and> t_user_id t = uid) (tasks db))),
           db\<lparr>tasks := filter (\<lambda>t. \<not> (t_id t = tid \<and> t_user_id t = uid)) (tasks db)\<rparr>)
      | SelectTaskStats uid \<Rightarrow>
          (Inr [JObj
             [(''total'', count_where (\<lambda>t. t_user_id t = uid) (tasks db)),
              (''completed'', count_where (\<lambda>t. t_user_id t = uid \<and> t_completed t) (tasks db)),
              (''pending'', count_where (\<lambda>t. t_user_id t = uid \<and> \<not> t_completed t) (tasks db)),
              (''urgent'', count_where (\<lambda>t. t_user_id t = uid \<and> t_priority t = ''urgent'') (tasks db)),
              (''high_priority'', count_where (\<lambda>t. t_user_id t = uid \<and> t_priority t = ''high'') (tasks db)),
              (''overdue'',
                 count_where (\<lambda>t. t_user_id t = uid \<and> \<not> t_completed t
                     \<and> (case t_due_date t of None \<Rightarrow> False | Some due \<Rightarrow> due < now db)) (tasks db))]],
           db)
      | SelectCategoryOwnership cid uid \<Rightarrow>
          (Inr (map (\<lambda>cat. JObj [(''id'', num (c_id cat))])
                  (filter (\<lambda>cat. c_id cat = cid \<and> c_user_id cat = uid) (categories db))),
           db))"

definition pool_query :: "statement \<Rightarrow> database \<Rightarrow> (js_error + jsval list) \<times> database" where
  "pool_query st db =
     (case db_fault db of
        Some (code, message) \<Rightarrow> (Inl (DatabaseError code message), db\<lparr>statements := statements db @ [st]\<rparr>)
      | None \<Rightarrow> run st (db\<lparr>statements := statements db @ [st]\<rparr>))"

subsection \<open>The Redis helpers of \<^verbatim>\<open>config/database\<close>\<close>

text \<open>
  The object \<^verbatim>\<open>redis\<close> the layer is built with: each helper catches the client's error,
  throws \<^verbatim>\<open>CacheUnavailableError\<close> for a connection error and returns \<^verbatim>\<open>null\<close> for any
  other.
\<close>

definition helper_catch :: "js_error \<Rightarrow> js_error + 'a option" where
  "helper_catch e = (if connection_error e then Inl CacheUnavailableError else Inr None)"

definition helper_get :: "string \<Rightarrow> redis_client \<Rightarrow> (js_error + string option) \<times> redis_client" where
  "helper_get key r =
     (case redis_get key r of
        (Inl e, r') \<Rightarrow> (helper_catch e, r')
      | (Inr v, r') \<Rightarrow> (Inr v, r'))"

definition helper_set ::
  "string \<Rightarrow> string option \<Rightarrow> nat \<Rightarrow> nat \<Rightarrow> redis_client \<Rightarrow> (js_error + unit option) \<times> redis_client" where
  "helper_set key val ttl cfgTTL r =
     (case redis_setEx key (if ttl = 0 then cfgTTL else ttl) val r of
        (Inl e, r') \<Rightarrow> (helper_catch e, r')
      | (Inr ok, r') \<Rightarrow> (Inr (Some ok), r'))"

definition helper_del :: "string \<Rightarrow> redis_client \<Rightarrow> (js_error + nat option) \<times> redis_client" where
  "helper_del key r =
     (case redis_del [key] r of
        (Inl e, r') \<Rightarrow> (helper_catch e, r')
      | (Inr n, r') \<Rightarrow> (Inr (Some n), r'))"

subsection \<open>Cache management and queries of the layer\<close>

text \<open>
  The state of the layer: the cache client behind the helpers, the relational store
  behind the pool, and the configured default time to live. The cache methods catch
  every error, so each returns a plain value with the state it leaves.
\<close>

record dal =
  cache :: redis_client
  db :: database
  config_ttl :: nat

definition getCached :: "string \<Rightarrow> dal \<Rightarrow> jsval \<times> dal" where
  "getCached key d =
     (case helper_get key (cache d) of
        (Inl e, r') \<Rightarrow> (JNull, d\<lparr>cache := r'\<rparr>)
      | (Inr None, r') \<Rightarrow> (JNull, d\<lparr>cache := r'\<rparr>)
      | (Inr (Some cached), r') \<Rightarrow>
          (if cached = [] then JNull
           else (case JSON_parse cached of None \<Rightarrow> JNull | Some v \<Rightarrow> v),
           d\<lparr>cache := r'\<rparr>))"

definition setCached :: "string \<Rightarrow> jsval \<Rightarrow> nat \<Rightarrow> dal \<Rightarrow> bool \<times> dal" where
  "setCached key data ttl d =
     (case helper_set key (JSON_stringify data) ttl (config_ttl d) (cache d) of
        (Inl e, r') \<Rightarrow> (False, d\<lparr>cache := r'\<rparr>)
      | (Inr ok, r') \<Rightarrow> (True, d\<lparr>cache := r'\<rparr>))"

definition deleteCached :: "string \<Rightarrow> dal \<Rightarrow> bool \<times> dal" where
  "deleteCached key d =
     (case helper_del key (cache d) of
        (Inl e, r') \<Rightarrow> (False, d\<lparr>cache := r'\<rparr>)
      | (Inr n, r') \<Rightarrow> (True, d\<lparr>cache := r'\<rparr>))"

text \<open>\<^verbatim>\<open>invalidateCache\<close>: one \<^verbatim>\<open>deleteCached\<close> per entry, started in the order of the list.\<close>

fun invalidateCache :: "string list \<Rightarrow> dal \<Rightarrow> dal" where
  "invalidateCache [] d = d"
| "invalidateCache (p # ps) d = invalidateCache ps (snd (deleteCached p d))"

definition key_chars :: string where
  "key_chars = ''abcdefghijklmnopqrstuvwxyzABCDEFGHIJKLMNOPQRSTUVWXYZ0123456789_-''"

definition sanitize :: "string \<Rightarrow> string" where
  "sanitize s = map (\<lambda>c. if c \<in> set key_chars then c else CHR ''_'') s"

definition generateCacheKey :: "string \<Rightarrow> jsval list \<Rightarrow> string" where
  "generateCacheKey namespace parts =
     namespace @ '':'' @
       join '':'' (map (\<lambda>part. sanitize (js_String part))
                    (filter (\<lambda>part. part \<noteq> JNull \<and> part \<noteq> JUndefined) parts))"

text \<open>\<^verbatim>\<open>query\<close> as the repository calls it, without the caching options.\<close>

definition query :: "statement \<Rightarrow> dal \<Rightarrow> (js_error + jsval list) \<times> dal" where
  "query st d = (case pool_query st (db d) of (res, db') \<Rightarrow> (res, d\<lparr>db := db'\<rparr>))"

section \<open>TaskRepository\<close>

text \<open>
  The class \<^verbatim>\<open>TaskRepository\<close>, registered with the layer. A filter object is the list of
  its own properties. The input of \<^verbatim>\<open>createTask\<close> and of \<^verbatim>\<open>updateTask\<close> is typed: an absent
  (undefined) field is \<open>None\<close>, and a nullable field that is present holds \<open>None\<close> for
  \<^verbatim>\<open>null\<close>.
\<close>

record task_data =
  d_title :: string
  d_description :: "string option"
  d_priority :: "string option"
  d_due_date :: "nat option"
  d_category_id :: "nat option"

text \<open>
  \<^verbatim>\<open>parseInt\<close> of the string form of a value: leading blanks, a sign, then the longest run
  of decimal digits, or of hexadecimal digits after \<^verbatim>\<open>0x\<close>; \<open>None\<close> is \<^verbatim>\<open>NaN\<close>.
\<close>

definition read_hex :: "string \<Rightarrow> nat option" where
  "read_hex ds =
     (if ds = [] then None
      else Some (foldl (\<lambda>a c. 16 * a + (case hex_val c of None \<Rightarrow> 0 | Some h \<Rightarrow> h)) 0 ds))"

definition parseInt :: "jsval \<Rightarrow> int option" where
  "parseInt v =
     (let s = skip_ws (js_String v);
          neg = (s \<noteq> [] \<and> hd s = CHR ''-'');
          body = (if s \<noteq> [] \<and> (hd s = CHR ''-'' \<or> hd s = CHR ''+'') then tl s else s);
          magnitude =
            (if take 2 body = ''0x'' \<or> take 2 body = ''0X''
             then read_hex (takeWhile (\<lambda>c. hex_val c \<noteq> None) (drop 2 body))
             else read_nat (fst (take_digits body)))
      in case magnitude of
           None \<Rightarrow> None
         | Some n \<Rightarrow> Some (if neg then - int n else int n))"

definition sql_int_of :: "int option \<Rightarrow> sql_int" where
  "sql_int_of x = (case x of None \<Rightarrow> SqlNaN | Some i \<Rightarrow> SqlInt i)"

definition or_default :: "jsval \<Rightarrow> jsval \<Rightarrow> jsval" where
  "or_default v d = (if v = JUndefined then d else v)"

definition lower_char :: "char \<Rightarrow> char" where
  "lower_char c =
     (if c \<in> set ''ABCDEFGHIJKLMNOPQRSTUVWXYZ'' then char_of (of_char c + (32 :: nat)) else c)"

definition upper_char :: "char \<Rightarrow> char" where
  "upper_char c =
     (if c \<in> set ''abcdefghijklmnopqrstuvwxyz'' then char_of (of_char c - (32 :: nat)) else c)"

definition allowedSortFields :: "string list" where
  "allowedSortFields = [''created_at'', ''due_date'', ''priority'', ''title'']"

definition allowedOrderDirections :: "string list" where
  "allowedOrderDirections = [''asc'', ''desc'']"

text \<open>\<^verbatim>\<open>{...obj, fromCache: b}\<close>.\<close>

definition with_fromCache :: "jsval \<Rightarrow> bool \<Rightarrow> jsval" where
  "with_fromCache v b = JObj (obj_put ''fromCache'' (JBool b) (own_entries v))"

definition invalidateUserTasksCache :: "nat \<Rightarrow> dal \<Rightarrow> dal" where
  "invalidateUserTasksCache userId d =
     invalidateCache
       [generateCacheKey ''user_tasks'' [num userId],
        generateCacheKey ''user_task_stats'' [num userId]] d"

definition validateCategoryOwnership :: "nat \<Rightarrow> nat \<Rightarrow> dal \<Rightarrow> (js_error + bool) \<times> dal" where
  "validateCategoryOwnership categoryId userId d =
     (case query (SelectCategoryOwnership categoryId userId) d of
        (Inl e, d') \<Rightarrow> (Inl e, d')
      | (Inr rows, d') \<Rightarrow> (Inr (rows \<noteq> []), d'))"

definition category_error :: js_error where
  "category_error = Error ''Category not found or does not belong to user''"

text \<open>The key of a list: \<^verbatim>\<open>generateCacheKey('user_tasks', userId, JSON.stringify(filters))\<close>.\<close>

definition list_key :: "nat \<Rightarrow> (string \<times> jsval) list \<Rightarrow> string" where
  "list_key userId filters =
     generateCacheKey ''user_tasks'' [num userId, JStr (stringify (JObj filters))]"

definition getUserTasks :: "nat \<Rightarrow> (string \<times> jsval) list \<Rightarrow> dal \<Rightarrow> (js_error + jsval) \<times> dal" where
  "getUserTasks userId filters d =
     (let completed = property filters ''completed'';
          priority = property filters ''priority'';
          category_id = property filters ''category_id'';
          sort = or_default (property filters ''sort'') (JStr ''created_at'');
          order = or_default (property filters ''order'') (JStr ''desc'');
          limit = or_default (property filters ''limit'') (JNum 50);
          offset = or_default (property filters ''offset'') (JNum 0);
          cacheKey = list_key userId filters
      in case getCached cacheKey d of
           (cached, d1) \<Rightarrow>
             if truthy cached then (Inr (with_fromCache cached True), d1)
             else if sort \<notin> JStr ` set allowedSortFields then
               (Inl (Error (''Invalid sort field: '' @ js_String sort @ ''. Allowed: ''
                       @ join '', '' allowedSortFields)), d1)
             else
               (case order of
                  JStr dir \<Rightarrow>
                    if map lower_char dir \<notin> set allowedOrderDirections then
                      (Inl (Error (''Invalid order direction: '' @ dir @ ''. Allowed: ''
                              @ join '', '' allowedOrderDirections)), d1)
                    else
                      let completed' = (if completed = JUndefined then None
                                        else Some (completed = JStr ''true'' \<or> completed = JBool True));
                          priority' = (if truthy priority then Some (js_String priority) else None);
                          category' = (if truthy category_id then Some (sql_int_of (parseInt category_id))
                                       else None)
                      in (case query (SelectUserTasks userId completed' priority' category'
                                        (js_String sort) (map upper_char dir)
                                        (sql_int_of (parseInt limit)) (sql_int_of (parseInt offset))) d1 of
                            (Inl e, d2) \<Rightarrow> (Inl e, snd (query (CountUserTasks userId completed' priority' category') d2))
                          | (Inr rows, d2) \<Rightarrow>
                              (case query (CountUserTasks userId completed' priority' category') d2 of
                                 (Inl e, d3) \<Rightarrow> (Inl e, d3)
                               | (Inr [], d3) \<Rightarrow>
                                   (Inl (TypeError ''Cannot read properties of undefined''), d3)
                               | (Inr (counted # rest), d3) \<Rightarrow>
                                   let total = parseInt (property (own_entries counted) ''total'');
                                       response = JObj
                                         [(''tasks'', JArr rows),
                                          (''pagination'', JObj
                                             [(''total'', nullable JNum total),
                                              (''limit'', nullable JNum (parseInt limit)),
                                              (''offset'', nullable JNum (parseInt offset)),
                                              (''hasMore'', JBool
                                                 (case (parseInt offset, parseInt limit, total) of
                                                    (Some off, Some l, Some t) \<Rightarrow> off + l < t
                                                  | _ \<Rightarrow> False))])]
                                   in (case setCached cacheKey response ttl_short d3 of
                                         (ok, d4) \<Rightarrow> (Inr (with_fromCache response False), d4))))
                | _ \<Rightarrow> (Inl (TypeError ''order.toLowerCase is not a function''), d1)))"

definition task_key :: "nat \<Rightarrow> nat \<Rightarrow> string" where
  "task_key taskId userId = generateCacheKey ''task'' [num taskId, num userId]"

definition getTaskById :: "nat \<Rightarrow> nat \<Rightarrow> dal \<Rightarrow> (js_error + jsval) \<times> dal" where
  "getTaskById taskId userId d =
     (case getCached (task_key taskId userId) d of
        (cached, d1) \<Rightarrow>
          if truthy cached then (Inr (with_fromCache cached True), d1)
          else (case query (SelectTaskById taskId userId) d1 of
                  (Inl e, d2) \<Rightarrow> (Inl e, d2)
                | (Inr [], d2) \<Rightarrow> (Inr JNull, d2)
                | (Inr (task # rest), d2) \<Rightarrow>
                    (case setCached (task_key taskId userId) task ttl_medium d2 of
                       (ok, d3) \<Rightarrow> (Inr (with_fromCache task False), d3))))"

text \<open>The insert and what follows it in \<^verbatim>\<open>createTask\<close>, once the category is accepted.\<close>

definition insert_task :: "nat \<Rightarrow> task_data \<Rightarrow> dal \<Rightarrow> (js_error + jsval) \<times> dal" where
  "insert_task userId taskData d =
     (case query (InsertTask (d_title taskData) (d_description taskData)
                    (case d_priority taskData of None \<Rightarrow> ''medium'' | Some p \<Rightarrow> p)
                    (d_due_date taskData) (d_category_id taskData) userId) d of
        (Inl e, d1) \<Rightarrow> (Inl e, d1)
      | (Inr [], d1) \<Rightarrow>
          (Inl (TypeError ''Cannot read properties of undefined''), invalidateUserTasksCache userId d1)
      | (Inr (newTask # rest), d1) \<Rightarrow> (Inr newTask, invalidateUserTasksCache userId d1))"

definition createTask :: "nat \<Rightarrow> task_data \<Rightarrow> dal \<Rightarrow> (js_error + jsval) \<times> dal" where
  "createTask userId taskData d =
     (case d_category_id taskData of
        None \<Rightarrow> insert_task userId taskData d
      | Some category_id \<Rightarrow>
          if category_id = 0 then insert_task userId taskData d
          else (case validateCategoryOwnership category_id userId d of
                  (Inl e, d1) \<Rightarrow> (Inl e, d1)
                | (Inr categoryExists, d1) \<Rightarrow>
                    if \<not> categoryExists then (Inl category_error, d1)
                    else insert_task userId taskData d1))"

definition no_fields :: "task_update \<Rightarrow> bool" where
  "no_fields u =
     (u_title u = None \<and> u_description u = None \<and> u_completed u = None \<and> u_priority u = None
      \<and> u_due_date u = None \<and> u_category_id u = None)"

text \<open>The update and what follows it in \<^verbatim>\<open>updateTask\<close>, once the category is accepted.\<close>

definition update_task :: "nat \<Rightarrow> nat \<Rightarrow> task_update \<Rightarrow> dal \<Rightarrow> (js_error + jsval) \<times> dal" where
  "update_task taskId userId updateData d =
     (if no_fields updateData then (Inl (Error ''No fields to update''), d)
      else (case query (UpdateTask updateData taskId userId) d of
              (Inl e, d1) \<Rightarrow> (Inl e, d1)
            | (Inr [], d1) \<Rightarrow> (Inr JNull, d1)
            | (Inr (updatedTask # rest), d1) \<Rightarrow>
                (Inr updatedTask,
                 snd (deleteCached (task_key taskId userId) (invalidateUserTasksCache userId d1)))))"

definition updateTask :: "nat \<Rightarrow> nat \<Rightarrow> task_update \<Rightarrow> dal \<Rightarrow> (js_error + jsval) \<times> dal" where
  "updateTask taskId userId updateData d =
     (case getTaskById taskId userId d of
        (Inl e, d1) \<Rightarrow> (Inl e, d1)
      | (Inr existingTask, d1) \<Rightarrow>
          if \<not> truthy existingTask then (Inr JNull, d1)
          else (case u_category_id updateData of
                  Some (Some category_id) \<Rightarrow>
                    (case validateCategoryOwnership category_id userId d1 of
                       (Inl e, d2) \<Rightarrow> (Inl e, d2)
                     | (Inr categoryExists, d2) \<Rightarrow>
                         if \<not> categoryExists then (Inl category_error, d2)
                         else update_task taskId userId updateData d2)
                | _ \<Rightarrow> update_task taskId userId updateData d1))"

definition deleteTask :: "nat \<Rightarrow> nat \<Rightarrow> dal \<Rightarrow> (js_error + bool) \<times> dal" where
  "deleteTask taskId userId d =
     (case query (DeleteTask taskId userId) d of
        (Inl e, d1) \<Rightarrow> (Inl e, d1)
      | (Inr [], d1) \<Rightarrow> (Inr False, d1)
      | (Inr (row # rest), d1) \<Rightarrow>
          (Inr True,
           snd (deleteCached (task_key taskId userId) (invalidateUserTasksCache userId d1))))"

definition stats_key :: "nat \<Rightarrow> string" where
  "stats_key userId = generateCacheKey ''user_task_stats'' [num userId]"

definition getTaskStats :: "nat \<Rightarrow> dal \<Rightarrow> (js_error + jsval) \<times> dal" where
  "getTaskStats userId d =
     (case getCached (stats_key userId) d of
        (cached, d1) \<Rightarrow>
          if truthy cached then (Inr (with_fromCache cached True), d1)
          else (case query (SelectTaskStats userId) d1 of
                  (Inl e, d2) \<Rightarrow> (Inl e, d2)
                | (Inr [], d2) \<Rightarrow> (Inl (TypeError ''Cannot convert undefined or null to object''), d2)
                | (Inr (row # rest), d2) \<Rightarrow>
                    let stats = JObj (map (\<lambda>(k, v). (k, JNum (case parseInt v of None \<Rightarrow> 0 | Some i \<Rightarrow> i)))
                                        (own_entries row))
                    in (case setCached (stats_key userId) stats ttl_short d2 of
                          (ok, d3) \<Rightarrow> (Inr (with_fromCache stats False), d3))))"

section \<open>Properties of the cache service\<close>

subsection \<open>States used in the examples\<close>

definition empty_backend :: redis_client where
  "empty_backend = \<lparr>slots = [], fault = None, calls = []\<rparr>"

definition refusing_backend :: redis_client where
  "refusing_backend =
     \<lparr>slots = [], fault = Some (RedisError (Some ''ECONNREFUSED'') ''connect ECONNREFUSED''),
      calls = []\<rparr>"

definition timing_out_backend :: redis_client where
  "timing_out_backend =
     \<lparr>slots = [], fault = Some (RedisError (Some ''ETIMEDOUT'') ''timed out''), calls = []\<rparr>"

definition recovered_backend :: redis_client where
  "recovered_backend = \<lparr>slots = [Some (''k'', 300, ''1'')], fault = None, calls = []\<rparr>"

subsection \<open>Degradation\<close>

datatype cache_op =
    Get string
  | Set string jsval "nat option"
  | Del string
  | Exists string
  | InvalidatePattern string

datatype cache_result = Value jsval | Flag bool | Summary invalidation

definition lift_result :: "('a \<Rightarrow> cache_result) \<Rightarrow> (js_error + 'a) \<times> cache_service \<Rightarrow> (js_error + cache_result) \<times> cache_service" where
  "lift_result f p = (case p of (Inl e, s) \<Rightarrow> (Inl e, s) | (Inr x, s) \<Rightarrow> (Inr (f x), s))"

fun perform :: "cache_op \<Rightarrow> cache_service \<Rightarrow> (js_error + cache_result) \<times> cache_service" where
  "perform (Get key) s = lift_result Value (get key s)"
| "perform (Set key val ttl) s = lift_result Flag (set_cache key val ttl s)"
| "perform (Del key) s = lift_result Flag (del key s)"
| "perform (Exists key) s = lift_result Flag (exists key s)"
| "perform (InvalidatePattern pat) s = lift_result Summary (invalidateCachePattern pat s)"

fun perform_all :: "cache_op list \<Rightarrow> cache_service \<Rightarrow> (js_error + cache_result) list \<times> cache_service" where
  "perform_all [] s = ([], s)"
| "perform_all (c # cs) s =
     (case perform c s of (x, s1) \<Rightarrow> (case perform_all cs s1 of (xs, s2) \<Rightarrow> (x # xs, s2)))"

fun short_circuit :: "cache_op \<Rightarrow> cache_result" where
  "short_circuit (Get key) = Value JNull"
| "short_circuit (Set key val ttl) = Flag False"
| "short_circuit (Del key) = Flag False"
| "short_circuit (Exists key) = Flag False"
| "short_circuit (InvalidatePattern pat) = Summary unavailable"

lemma perform_unhealthy: "\<not> isHealthy s \<Longrightarrow> perform c s = (Inr (short_circuit c), s)"
  by (cases c)
    (auto simp: isHealthy_def lift_result_def get_def set_cache_def del_def exists_def
      invalidateCachePattern_def split: option.splits)

lemma perform_all_unhealthy:
  "\<not> isHealthy s \<Longrightarrow> perform_all cs s = (map (\<lambda>c. Inr (short_circuit c)) cs, s)"
  by (induction cs) (simp_all add: perform_unhealthy)

lemma handleError_connection:
  "connection_error e \<Longrightarrow> handleError operation e s = (Inl CacheUnavailableError, s\<lparr>isAvailable := False\<rparr>)"
  by (simp add: handleError_def connection_error_def)

lemma scan_loop_fault:
  "fault r = Some e \<Longrightarrow> scan_loop pat cursor d r = (Inl e, sent (SCAN cursor pat batchSize) r)"
  by (subst scan_loop.simps) (simp add: redis_scan_def)

text \<open>Does the operation reach the backend? A write of \<open>undefined\<close> is refused by the client.\<close>

fun reaches_backend :: "cache_op \<Rightarrow> bool" where
  "reaches_backend (Set key val ttl) = (cacheValue val \<noteq> None)"
| "reaches_backend c = True"

lemma perform_connection_error:
  assumes "isHealthy s" and "redis s = Some r" and "fault r = Some e" and "connection_error e"
    and "reaches_backend c"
  shows "fst (perform c s) = Inl CacheUnavailableError \<and> \<not> isAvailable (snd (perform c s))"
  using assms
  by (cases c)
    (auto simp: isHealthy_def lift_result_def get_def set_cache_def del_def exists_def
      invalidateCachePattern_def redis_get_def redis_setEx_def redis_del_def redis_exists_def
      scan_loop_fault handleError_connection handled_false_def split: option.splits)

text \<open>
  C3. Once a cache call has met a connection error (ECONNREFUSED or ENOTFOUND), the
  service is unhealthy, and from then on every get, set, del, exists and pattern
  invalidation returns its miss or no-op value and leaves the whole state as it was: the
  backend is not contacted (its record of calls does not grow) and the health flag is not
  restored, whatever state \<open>r'\<close> the backend is in by then.
\<close>

theorem connection_failure_degrades_for_good:
  assumes "isHealthy s" and "redis s = Some r" and "fault r = Some e" and "connection_error e"
    and "reaches_backend c"
  shows "\<exists>s'. perform c s = (Inl CacheUnavailableError, s') \<and> \<not> isHealthy s' \<and>
           (\<forall>cs r'. perform_all cs (s'\<lparr>redis := Some r'\<rparr>) =
                      (map (\<lambda>c. Inr (short_circuit c)) cs, s'\<lparr>redis := Some r'\<rparr>))"
proof -
  obtain x s' where p: "perform c s = (x, s')"
    by (cases "perform c s")
  with perform_connection_error [OF assms] have x: "x = Inl CacheUnavailableError"
    and s': "\<not> isAvailable s'"
    by simp_all
  have "\<not> isHealthy (s'\<lparr>redis := Some r'\<rparr>)" for r'
    using s' by (simp add: isHealthy_def)
  then have "perform_all cs (s'\<lparr>redis := Some r'\<rparr>) =
               (map (\<lambda>c. Inr (short_circuit c)) cs, s'\<lparr>redis := Some r'\<rparr>)" for cs r'
    by (rule perform_all_unhealthy)
  with p x s' show ?thesis by (auto simp: isHealthy_def)
qed

theorem connection_failure_degrades_for_good_witness:
  "\<exists>s'. perform (Get ''k'') (CacheService (Some refusing_backend) 0) = (Inl CacheUnavailableError, s')
        \<and> \<not> isHealthy s'
        \<and> perform_all [Get ''k'', Set ''k'' (JNum 2) None, Del ''k'', Exists ''k'', InvalidatePattern ''*'']
              (s'\<lparr>redis := Some recovered_backend\<rparr>)
            = ([Inr (Value JNull), Inr (Flag False), Inr (Flag False), Inr (Flag False),
                Inr (Summary unavailable)],
               s'\<lparr>redis := Some recovered_backend\<rparr>)"
proof -
  have h1: "isHealthy (CacheService (Some refusing_backend) 0)"
    by (simp add: isHealthy_def CacheService_def)
  have h2: "redis (CacheService (Some refusing_backend) 0) = Some refusing_backend"
    by (simp add: CacheService_def)
  have h3: "fault refusing_backend = Some (RedisError (Some ''ECONNREFUSED'') ''connect ECONNREFUSED'')"
    by (simp add: refusing_backend_def)
  have h4: "connection_error (RedisError (Some ''ECONNREFUSED'') ''connect ECONNREFUSED'')"
    by (simp add: connection_error_def)
  have h5: "reaches_backend (Get ''k'')"
    by simp
  from connection_failure_degrades_for_good [OF h1 h2 h3 h4 h5]
  obtain s' where a: "perform (Get ''k'') (CacheService (Some refusing_backend) 0) = (Inl CacheUnavailableError, s')"
    and b: "\<not> isHealthy s'"
    and c: "\<And>cs r'. perform_all cs (s'\<lparr>redis := Some r'\<rparr>) =
                      (map (\<lambda>c. Inr (short_circuit c)) cs, s'\<lparr>redis := Some r'\<rparr>)"
    by blast
  from c [of "[Get ''k'', Set ''k'' (JNum 2) None, Del ''k'', Exists ''k'', InvalidatePattern ''*'']" recovered_backend]
  have "perform_all [Get ''k'', Set ''k'' (JNum 2) None, Del ''k'', Exists ''k'', InvalidatePattern ''*'']
              (s'\<lparr>redis := Some recovered_backend\<rparr>)
            = ([Inr (Value JNull), Inr (Flag False), Inr (Flag False), Inr (Flag False),
                Inr (Summary unavailable)],
               s'\<lparr>redis := Some recovered_backend\<rparr>)"
    by simp
  with a b show ?thesis by blast
qed

text \<open>
  The claim as stated fails: after the failure the backend comes back holding the key, and
  the next read still reports a miss and leaves the service unhealthy.
\<close>

theorem health_is_not_restored:
  "get ''k'' ((snd (get ''k'' (CacheService (Some refusing_backend) 0)))\<lparr>redis := Some recovered_backend\<rparr>)
     = (Inr JNull,
        \<lparr>redis = Some recovered_backend, isAvailable = False, ttl_default = 1800\<rparr>)
   \<and> \<not> isHealthy (snd (get ''k''
          ((snd (get ''k'' (CacheService (Some refusing_backend) 0)))\<lparr>redis := Some recovered_backend\<rparr>)))
   \<and> fst (get ''k'' (CacheService (Some recovered_backend) 0)) = Inr (JNum 1)"
  by code_simp

subsection \<open>Writes\<close>

lemma set_cache_unhealthy: "\<not> isHealthy s \<Longrightarrow> set_cache key val ttl s = (Inr False, s)"
  by (auto simp: set_cache_def isHealthy_def split: option.splits)

lemma set_cache_backend_error:
  assumes "isHealthy s" and "redis s = Some r"
    and "redis_setEx key (cacheTtl ttl s) (cacheValue val) r = (Inl e, r')"
  shows "set_cache key val ttl s =
           (if connection_error e
            then (Inl CacheUnavailableError, s\<lparr>redis := Some r', isAvailable := False\<rparr>)
            else (Inr False, s\<lparr>redis := Some r'\<rparr>))"
  using assms
  by (simp add: set_cache_def isHealthy_def handleError_def handled_false_def connection_error_def)

text \<open>
  C5, amended. A write returns \<^verbatim>\<open>false\<close> at once and leaves the state as it was when the
  service is unhealthy. When the write raises an error at the backend, an error other than
  a connection error is caught and the write returns \<^verbatim>\<open>false\<close>; a connection error
  (ECONNREFUSED, ENOTFOUND) marks the service unavailable and the write throws
  \<^verbatim>\<open>CacheUnavailableError\<close> to its caller.
\<close>

theorem set_cache_failure_modes:
  "(\<not> isHealthy s \<longrightarrow> set_cache key val ttl s = (Inr False, s)) \<and>
   (\<forall>r e r'. isHealthy s \<longrightarrow> redis s = Some r \<longrightarrow>
       redis_setEx key (cacheTtl ttl s) (cacheValue val) r = (Inl e, r') \<longrightarrow>
       set_cache key val ttl s =
         (if connection_error e
          then (Inl CacheUnavailableError, s\<lparr>redis := Some r', isAvailable := False\<rparr>)
          else (Inr False, s\<lparr>redis := Some r'\<rparr>)))"
  using set_cache_unhealthy set_cache_backend_error by blast

theorem set_cache_failure_modes_witness:
  "set_cache ''k'' (JNum 1) None (CacheService None 0) = (Inr False, CacheService None 0) \<and>
   set_cache ''k'' (JNum 1) None (CacheService (Some timing_out_backend) 0) =
     (Inr False,
      (CacheService (Some timing_out_backend) 0)
        \<lparr>redis := Some (sent (SETEX ''k'' 1800 ''1'') timing_out_backend)\<rparr>)"
proof -
  have u: "\<not> isHealthy (CacheService None 0)"
    by (simp add: isHealthy_def CacheService_def)
  have h: "isHealthy (CacheService (Some timing_out_backend) 0)"
    by (simp add: isHealthy_def CacheService_def)
  have r: "redis (CacheService (Some timing_out_backend) 0) = Some timing_out_backend"
    by (simp add: CacheService_def)
  have one: "show_int 1 = ''1''"
    by code_simp
  have e: "redis_setEx ''k'' (cacheTtl None (CacheService (Some timing_out_backend) 0))
             (cacheValue (JNum 1)) timing_out_backend
           = (Inl (RedisError (Some ''ETIMEDOUT'') ''timed out''),
              sent (SETEX ''k'' 1800 ''1'') timing_out_backend)"
    by (simp add: redis_setEx_def cacheTtl_def cacheValue_def CacheService_def JSON_stringify_def
        timing_out_backend_def one)
  have n: "\<not> connection_error (RedisError (Some ''ETIMEDOUT'') ''timed out'')"
    by (simp add: connection_error_def)
  from set_cache_failure_modes [of "CacheService None 0" "''k''" "JNum 1" None] u
  have a: "set_cache ''k'' (JNum 1) None (CacheService None 0) = (Inr False, CacheService None 0)"
    by blast
  from set_cache_failure_modes [of "CacheService (Some timing_out_backend) 0" "''k''" "JNum 1" None]
    h r e n
  have "set_cache ''k'' (JNum 1) None (CacheService (Some timing_out_backend) 0) =
     (Inr False,
      (CacheService (Some timing_out_backend) 0)
        \<lparr>redis := Some (sent (SETEX ''k'' 1800 ''1'') timing_out_backend)\<rparr>)"
    by simp
  with a show ?thesis by blast
qed

text \<open>The claim as stated fails: on a refused connection the write throws.\<close>

theorem set_cache_raises_when_refused:
  "set_cache ''k'' (JNum 1) None (CacheService (Some refusing_backend) 0) =
     (Inl CacheUnavailableError,
      \<lparr>redis = Some (sent (SETEX ''k'' 1800 ''1'') refusing_backend), isAvailable = False,
       ttl_default = 1800\<rparr>)"
  by code_simp

subsection \<open>Serialisation and parsing\<close>

text \<open>
  The values JSON serialisation preserves: no undefined part, no repeated key. \<open>nesting\<close>
  bounds the nested calls the parser needs for the text of a value.
\<close>

fun json_plain :: "jsval \<Rightarrow> bool"
  and plain_elems :: "jsval list \<Rightarrow> bool"
  and plain_members :: "(string \<times> jsval) list \<Rightarrow> bool" where
  "json_plain JUndefined = False"
| "json_plain JNull = True"
| "json_plain (JBool b) = True"
| "json_plain (JNum i) = True"
| "json_plain (JStr s) = True"
| "json_plain (JArr vs) = plain_elems vs"
| "json_plain (JObj kvs) = (distinct (map fst kvs) \<and> plain_members kvs)"
| "plain_elems [] = True"
| "plain_elems (v # vs) = (json_plain v \<and> plain_elems vs)"
| "plain_members [] = True"
| "plain_members ((k, v) # kvs) = (json_plain v \<and> plain_members kvs)"



























lemma plain_not_undefined: "json_plain v \<Longrightarrow> v \<noteq> JUndefined"
  by auto





subsection \<open>Write, then read\<close>






subsection \<open>Pattern invalidation\<close>

text \<open>What the invalidation of a pattern leaves of a table: the slots of matching keys are emptied.\<close>

definition kill :: "string \<Rightarrow> slot list \<Rightarrow> slot list" where
  "kill pat ss =
     map (\<lambda>s. case slot_key s of None \<Rightarrow> s | Some k \<Rightarrow> if glob_match pat k then None else s) ss"

text \<open>
  The calls of the loop from position \<open>i\<close> of a table: a SCAN of each page, followed by one
  DEL of the page's matching keys when it has any, until the page that reaches the end.
\<close>

function trace_from :: "string \<Rightarrow> nat \<Rightarrow> slot list \<Rightarrow> command list" where
  "trace_from pat i ss =
     SCAN (show_nat i) pat batchSize
       # (if page_keys pat (take batchSize (drop i ss)) = [] then []
          else [DEL (page_keys pat (take batchSize (drop i ss)))])
       @ (if length ss \<le> i + batchSize then [] else trace_from pat (i + batchSize) ss)"
  by pat_completeness auto
termination
  by (relation "measure (\<lambda>(pat, i, ss). length ss - i)") (auto simp: batchSize_def)

declare trace_from.simps [simp del]

definition kill_keys :: "string set \<Rightarrow> slot list \<Rightarrow> slot list" where
  "kill_keys K ss =
     map (\<lambda>s. case slot_key s of None \<Rightarrow> s | Some k \<Rightarrow> if k \<in> K then None else s) ss"

lemma keys_of_append: "keys_of (a @ b) = keys_of a @ keys_of b"
  by (induction a rule: keys_of.induct) simp_all

lemma slot_key_in_keys_of: "s \<in> set ss \<Longrightarrow> slot_key s = Some k \<Longrightarrow> k \<in> set (keys_of ss)"
  by (induction ss rule: keys_of.induct) auto

lemma lookup_slot_None_iff: "(lookup_slot k ss = None) = (k \<notin> set (keys_of ss))"
  by (induction ss rule: keys_of.induct) auto

lemma clear_slot_kill_keys: "clear_slot k ss = kill_keys {k} ss"
  by (auto simp: clear_slot_def kill_keys_def split: option.splits)

lemma kill_keys_twice: "kill_keys A (kill_keys B ss) = kill_keys (B \<union> A) ss"
  by (auto simp: kill_keys_def split: option.splits)

lemma keys_of_kill_keys: "keys_of (kill_keys K ss) = filter (\<lambda>k. k \<notin> K) (keys_of ss)"
  by (induction ss rule: keys_of.induct) (simp_all add: kill_keys_def)

lemma keys_of_kill: "keys_of (kill pat ss) = filter (\<lambda>k. \<not> glob_match pat k) (keys_of ss)"
  by (induction ss rule: keys_of.induct) (simp_all add: kill_def)

lemma del_keys_present:
  "distinct ks \<Longrightarrow> set ks \<subseteq> set (keys_of ss) \<Longrightarrow> del_keys ks ss = (length ks, kill_keys (set ks) ss)"
proof (induction ks arbitrary: ss)
  case Nil
  show ?case by (simp add: kill_keys_def map_idI split: option.splits)
next
  case (Cons k ks)
  then have present: "lookup_slot k ss \<noteq> None"
    by (simp add: lookup_slot_None_iff)
  have "set ks \<subseteq> set (keys_of (clear_slot k ss))"
    using Cons.prems by (auto simp: clear_slot_kill_keys keys_of_kill_keys)
  with Cons have "del_keys ks (clear_slot k ss) = (length ks, kill_keys (set ks) (clear_slot k ss))"
    by simp
  with present show ?case
    by (auto simp: clear_slot_kill_keys kill_keys_twice)
qed

lemma kill_keys_disjoint: "K \<inter> set (keys_of ss) = {} \<Longrightarrow> kill_keys K ss = ss"
proof -
  assume d: "K \<inter> set (keys_of ss) = {}"
  have "(case slot_key s of None \<Rightarrow> s | Some k \<Rightarrow> if k \<in> K then None else s) = s"
    if "s \<in> set ss" for s
    using that d slot_key_in_keys_of [of s ss] by (auto split: option.splits)
  then show ?thesis
    by (simp add: kill_keys_def map_idI)
qed

lemma kill_keys_page: "kill_keys (set (page_keys pat P)) P = kill pat P"
proof -
  have "(case slot_key s of None \<Rightarrow> s | Some k \<Rightarrow> if k \<in> set (page_keys pat P) then None else s)
        = (case slot_key s of None \<Rightarrow> s | Some k \<Rightarrow> if glob_match pat k then None else s)"
    if "s \<in> set P" for s
    using that slot_key_in_keys_of [of s P] by (auto simp: page_keys_def split: option.splits)
  then show ?thesis
    by (simp add: kill_keys_def kill_def)
qed

lemma kill_keys_append: "kill_keys K (a @ b) = kill_keys K a @ kill_keys K b"
  by (simp add: kill_keys_def)

lemma del_page:
  assumes "distinct (keys_of (A @ P @ B))"
  shows "del_keys (page_keys pat P) (A @ P @ B) = (length (page_keys pat P), A @ kill pat P @ B)"
proof -
  have d: "distinct (page_keys pat P)"
    using assms by (simp add: page_keys_def keys_of_append)
  have sub: "set (page_keys pat P) \<subseteq> set (keys_of (A @ P @ B))"
    by (auto simp: page_keys_def keys_of_append)
  have a: "kill_keys (set (page_keys pat P)) A = A"
    using assms by (intro kill_keys_disjoint) (auto simp: page_keys_def keys_of_append)
  have b: "kill_keys (set (page_keys pat P)) B = B"
    using assms by (intro kill_keys_disjoint) (auto simp: page_keys_def keys_of_append)
  show ?thesis
    using del_keys_present [OF d sub] by (simp add: kill_keys_append a b kill_keys_page)
qed

text \<open>
  The keys of the table are distinct in the empty store, and every command keeps them so.
\<close>

lemma keys_of_store_slot:
  "keys_of (store_slot k t v ss) = (if k \<in> set (keys_of ss) then keys_of ss else keys_of ss @ [k])"
  by (induction k t v ss rule: store_slot.induct) auto

lemma del_keys_kills: "\<exists>K. snd (del_keys ks ss) = kill_keys K ss"
proof (induction ks arbitrary: ss)
  case Nil
  have "kill_keys {} ss = ss"
    by (rule kill_keys_disjoint) simp
  then show ?case by (metis del_keys.simps(1) snd_conv)
next
  case (Cons k ks)
  show ?case
  proof (cases "lookup_slot k ss = None")
    case True
    with Cons [of ss] show ?thesis by simp
  next
    case False
    from Cons [of "clear_slot k ss"] obtain K where
      "snd (del_keys ks (clear_slot k ss)) = kill_keys K (clear_slot k ss)"
      by blast
    with False show ?thesis
      by (auto simp: clear_slot_kill_keys kill_keys_twice split: prod.splits)
  qed
qed

lemma commands_keep_keys_distinct:
  assumes "distinct (keys_of (slots r))"
  shows "distinct (keys_of (slots (snd (redis_get k r))))"
    and "distinct (keys_of (slots (snd (redis_setEx k t v r))))"
    and "distinct (keys_of (slots (snd (redis_del ks r))))"
    and "distinct (keys_of (slots (snd (redis_exists k r))))"
    and "distinct (keys_of (slots (snd (redis_scan cursor pat n r))))"
proof -
  show "distinct (keys_of (slots (snd (redis_get k r))))"
    using assms by (simp add: redis_get_def sent_def split: option.splits)
  show "distinct (keys_of (slots (snd (redis_setEx k t v r))))"
    using assms by (simp add: redis_setEx_def sent_def keys_of_store_slot split: option.splits)
  show "distinct (keys_of (slots (snd (redis_exists k r))))"
    using assms by (simp add: redis_exists_def sent_def split: option.splits)
  show "distinct (keys_of (slots (snd (redis_scan cursor pat n r))))"
    using assms by (simp add: redis_scan_def sent_def split: option.splits)
  obtain K where "snd (del_keys ks (slots r)) = kill_keys K (slots r)"
    using del_keys_kills by blast
  then show "distinct (keys_of (slots (snd (redis_del ks r))))"
    using assms
    by (auto simp: redis_del_def sent_def keys_of_kill_keys split: option.splits prod.splits)
qed

lemma page_keys_append: "page_keys pat (a @ b) = page_keys pat a @ page_keys pat b"
  by (simp add: page_keys_def keys_of_append)

lemma kill_append: "kill pat (a @ b) = kill pat a @ kill pat b"
  by (simp add: kill_def)

lemma length_kill: "length (kill pat ss) = length ss"
  by (simp add: kill_def)

lemma kill_no_match: "page_keys pat P = [] \<Longrightarrow> kill pat P = P"
proof -
  assume e: "page_keys pat P = []"
  have "(case slot_key s of None \<Rightarrow> s | Some k \<Rightarrow> if glob_match pat k then None else s) = s"
    if "s \<in> set P" for s
    using that e slot_key_in_keys_of [of s P]
    by (auto simp: page_keys_def filter_empty_conv split: option.splits)
  then show ?thesis
    by (simp add: kill_def map_idI)
qed

lemma trace_from_cong:
  "length ss = length ss' \<Longrightarrow> drop i ss = drop i ss' \<Longrightarrow> trace_from pat i ss = trace_from pat i ss'"
proof (induction "length ss - i" arbitrary: i rule: less_induct)
  case less
  have d: "drop (i + batchSize) ss = drop (i + batchSize) ss'"
    using less.prems(2) by (metis add.commute drop_drop)
  show ?case
  proof (cases "length ss \<le> i + batchSize")
    case True
    with less.prems show ?thesis
      by (subst (1 2) trace_from.simps) simp
  next
    case False
    then have "length ss - (i + batchSize) < length ss - i"
      by (simp add: batchSize_def)
    from less.hyps [OF this less.prems(1) d] False less.prems show ?thesis
      by (subst (1 2) trace_from.simps) simp
  qed
qed

lemma scan_loop_correct:
  assumes "fault r = None" and "distinct (keys_of (slots r))"
  shows "scan_loop pat (show_nat i) d r =
           (Inr (d + length (page_keys pat (drop i (slots r)))),
            r\<lparr>slots := take i (slots r) @ kill pat (drop i (slots r)),
              calls := calls r @ trace_from pat i (slots r)\<rparr>)"
  using assms
proof (induction "length (slots r) - i" arbitrary: i d r rule: less_induct)
  case less
  define ss where "ss = slots r"
  define A where "A = take i ss"
  define P where "P = take batchSize (drop i ss)"
  define C where "C = drop (i + batchSize) ss"
  define ks where "ks = page_keys pat P"
  define r1 where "r1 = sent (SCAN (show_nat i) pat batchSize) r"
  define r2 where "r2 = r\<lparr>slots := A @ kill pat P @ C,
      calls := calls r @ SCAN (show_nat i) pat batchSize # (if ks = [] then [] else [DEL ks])\<rparr>"
  have ss: "ss = A @ P @ C"
    unfolding A_def P_def C_def by (metis add.commute append_take_drop_id drop_drop)
  have dropi: "drop i ss = P @ C"
    unfolding P_def C_def by (metis add.commute append_take_drop_id drop_drop)
  have scan: "redis_scan (show_nat i) pat batchSize r =
      (Inr (if length ss \<le> i + batchSize then ''0'' else show_nat (i + batchSize), ks), r1)"
    using less.prems
    by (simp add: redis_scan_def read_nat_show_nat batchSize_def ss_def ks_def P_def r1_def)
  have dist: "distinct (keys_of (A @ P @ C))"
    using less.prems(2) ss by (simp add: ss_def)
  have del: "(if ks \<noteq> [] then redis_del ks r1 else (Inr 0, r1)) = (Inr (length ks), r2)"
  proof (cases "ks = []")
    case True
    then have "kill pat P = P"
      by (simp add: ks_def kill_no_match)
    with True ss show ?thesis
      by (simp add: r1_def r2_def sent_def ss_def)
  next
    case False
    have "del_keys ks (slots r1) = (length ks, A @ kill pat P @ C)"
      using del_page [OF dist, of pat] ss by (simp add: ks_def r1_def sent_def ss_def)
    with False less.prems(1) show ?thesis
      by (simp add: redis_del_def r1_def r2_def sent_def)
  qed
  show ?case
  proof (cases "length ss \<le> i + batchSize")
    case True
    then have C: "C = []" by (simp add: C_def)
    have "scan_loop pat (show_nat i) d r = (Inr (d + length ks), r2)"
      using scan del True by (subst scan_loop.simps) simp
    moreover have "trace_from pat i ss = SCAN (show_nat i) pat batchSize # (if ks = [] then [] else [DEL ks])"
      using True by (subst trace_from.simps) (simp add: ks_def P_def)
    ultimately show ?thesis
      using dropi C by (simp add: r2_def ks_def ss_def [symmetric] A_def [symmetric])
  next
    case False
    then have lenA: "length A = i" and lenP: "length P = batchSize"
      by (simp_all add: A_def P_def)
    have nz: "show_nat (i + batchSize) \<noteq> ''0''"
      by (simp add: show_nat_eq_zero batchSize_def)
    have step: "scan_loop pat (show_nat i) d r =
                scan_loop pat (show_nat (i + batchSize)) (d + length ks) r2"
      using scan del False nz by (subst scan_loop.simps) simp
    have len2: "length (slots r2) = length ss"
      using ss by (simp add: r2_def length_kill)
    have m: "length (slots r2) - (i + batchSize) < length (slots r) - i"
      using False len2 by (simp add: ss_def batchSize_def)
    have f2: "fault r2 = None"
      using less.prems(1) by (simp add: r2_def)
    have d2: "distinct (keys_of (slots r2))"
      using dist by (auto simp: r2_def keys_of_append keys_of_kill)
    have take2: "take (i + batchSize) (slots r2) = A @ kill pat P"
      using lenA lenP by (simp add: r2_def length_kill)
    have drop2: "drop (i + batchSize) (slots r2) = C"
      using lenA lenP by (simp add: r2_def length_kill)
    have "drop (i + batchSize) (slots r2) = drop (i + batchSize) ss"
      using drop2 by (simp add: C_def)
    with len2 have tr: "trace_from pat (i + batchSize) (slots r2) = trace_from pat (i + batchSize) ss"
      by (rule trace_from_cong)
    have tr0: "trace_from pat i ss =
        SCAN (show_nat i) pat batchSize # (if ks = [] then [] else [DEL ks])
          @ trace_from pat (i + batchSize) ss"
      using False by (subst trace_from.simps) (simp add: ks_def P_def)
    have ih: "scan_loop pat (show_nat (i + batchSize)) (d + length ks) r2 =
        (Inr (d + length ks + length (page_keys pat C)),
         r2\<lparr>slots := (A @ kill pat P) @ kill pat C,
            calls := calls r2 @ trace_from pat (i + batchSize) ss\<rparr>)"
      using less.hyps [OF m f2 d2, of "d + length ks"] by (simp add: take2 drop2 tr)
    show ?thesis
      unfolding step ih
      using dropi
      by (simp add: tr0 page_keys_append kill_append ks_def r2_def
          ss_def [symmetric] A_def [symmetric])
  qed
qed

lemma lookup_slot_kill:
  "lookup_slot k (kill pat ss) = (if glob_match pat k then None else lookup_slot k ss)"
  by (induction ss rule: keys_of.induct) (auto simp: kill_def)

text \<open>
  C4. On a healthy service whose backend answers, where \<open>N\<close> keys of the store match the
  pattern, \<^verbatim>\<open>invalidateCachePattern\<close> returns \<^verbatim>\<open>{deleted: N, pattern, success: true}\<close>. The
  keys left are the keys that do not match, in their order and with their values; no
  matching key is left. The calls made are those of \<open>trace_from\<close> from cursor \<^verbatim>\<open>'0'\<close>: one
  SCAN per page of the table until the cursor comes back as \<^verbatim>\<open>'0'\<close>, each followed by a
  single DEL of that page's matching keys when the page has any, however many pages the
  matching keys are spread over.
\<close>

theorem invalidateCachePattern_deletes_matching:
  assumes "isHealthy s" and "redis s = Some r" and "fault r = None"
    and "distinct (keys_of (slots r))"
  shows "\<exists>r'. invalidateCachePattern pat s =
             (Inr \<lparr>deleted = length (filter (glob_match pat) (keys_of (slots r))),
                   pattern = Some pat, error = None, success = Some True\<rparr>,
              s\<lparr>redis := Some r'\<rparr>)
           \<and> keys_of (slots r') = filter (\<lambda>k. \<not> glob_match pat k) (keys_of (slots r))
           \<and> (\<forall>k. lookup_slot k (slots r') =
                     (if glob_match pat k then None else lookup_slot k (slots r)))
           \<and> calls r' = calls r @ trace_from pat 0 (slots r)"
proof -
  have zero: "show_nat 0 = ''0''"
    by (simp add: show_nat_eq_zero)
  let ?r' = "r\<lparr>slots := kill pat (slots r), calls := calls r @ trace_from pat 0 (slots r)\<rparr>"
  have "scan_loop pat ''0'' 0 r = (Inr (length (page_keys pat (slots r))), ?r')"
    using scan_loop_correct [OF assms(3,4), of pat 0 0] by (simp add: zero)
  then have "invalidateCachePattern pat s =
             (Inr \<lparr>deleted = length (filter (glob_match pat) (keys_of (slots r))),
                   pattern = Some pat, error = None, success = Some True\<rparr>,
              s\<lparr>redis := Some ?r'\<rparr>)"
    using assms(1,2) by (simp add: invalidateCachePattern_def isHealthy_def page_keys_def)
  moreover have "keys_of (slots ?r') = filter (\<lambda>k. \<not> glob_match pat k) (keys_of (slots r))"
    by (simp add: keys_of_kill)
  moreover have "lookup_slot k (slots ?r') = (if glob_match pat k then None else lookup_slot k (slots r))" for k
    by (simp add: lookup_slot_kill)
  moreover have "calls ?r' = calls r @ trace_from pat 0 (slots r)"
    by simp
  ultimately show ?thesis by blast
qed

definition two_page_backend :: redis_client where
  "two_page_backend =
     \<lparr>slots = Some (''user:1:tasks:default'', 300, ''[]'') # replicate 99 None
               @ [Some (''user:1:tasks:priority:high'', 300, ''[]''),
                  Some (''user:2:tasks:default'', 300, ''[]'')],
      fault = None, calls = []\<rparr>"

lemma keys_of_replicate_None: "keys_of (replicate n None @ ss) = keys_of ss"
  by (induction n) simp_all

theorem invalidateCachePattern_deletes_matching_witness:
  "\<exists>r'. invalidateCachePattern ''user:1:tasks:*'' (CacheService (Some two_page_backend) 0) =
           (Inr \<lparr>deleted = 2, pattern = Some ''user:1:tasks:*'', error = None, success = Some True\<rparr>,
            (CacheService (Some two_page_backend) 0)\<lparr>redis := Some r'\<rparr>)
        \<and> keys_of (slots r') = [''user:2:tasks:default'']
        \<and> lookup_slot ''user:2:tasks:default'' (slots r') = Some ''[]''
        \<and> lookup_slot ''user:1:tasks:default'' (slots r') = None
        \<and> calls r' = [SCAN ''0'' ''user:1:tasks:*'' 100, DEL [''user:1:tasks:default''],
                       SCAN ''100'' ''user:1:tasks:*'' 100, DEL [''user:1:tasks:priority:high'']]"
proof -
  have h1: "isHealthy (CacheService (Some two_page_backend) 0)"
    by (simp add: isHealthy_def CacheService_def)
  have h2: "redis (CacheService (Some two_page_backend) 0) = Some two_page_backend"
    by (simp add: CacheService_def)
  have h3: "fault two_page_backend = None"
    by (simp add: two_page_backend_def)
  have ks: "keys_of (slots two_page_backend) =
      [''user:1:tasks:default'', ''user:1:tasks:priority:high'', ''user:2:tasks:default'']"
    by (simp add: two_page_backend_def keys_of_replicate_None)
  have h4: "distinct (keys_of (slots two_page_backend))"
    by (simp add: ks)
  have m: "filter (glob_match ''user:1:tasks:*'') (keys_of (slots two_page_backend))
      = [''user:1:tasks:default'', ''user:1:tasks:priority:high'']"
    unfolding ks by simp
  have tr: "trace_from ''user:1:tasks:*'' 0 (slots two_page_backend) =
      [SCAN ''0'' ''user:1:tasks:*'' 100, DEL [''user:1:tasks:default''],
       SCAN ''100'' ''user:1:tasks:*'' 100, DEL [''user:1:tasks:priority:high'']]"
    by code_simp
  have l1: "lookup_slot ''user:2:tasks:default'' (slots two_page_backend) = Some ''[]''"
    by code_simp
  have c0: "calls two_page_backend = []"
    by (simp add: two_page_backend_def)
  from invalidateCachePattern_deletes_matching [OF h1 h2 h3 h4, of "''user:1:tasks:*''"]
  obtain r' where a: "invalidateCachePattern ''user:1:tasks:*'' (CacheService (Some two_page_backend) 0) =
           (Inr \<lparr>deleted = 2, pattern = Some ''user:1:tasks:*'', error = None, success = Some True\<rparr>,
            (CacheService (Some two_page_backend) 0)\<lparr>redis := Some r'\<rparr>)"
    and b: "keys_of (slots r') = [''user:2:tasks:default'']"
    and c: "\<And>k. lookup_slot k (slots r') =
              (if glob_match ''user:1:tasks:*'' k then None else lookup_slot k (slots two_page_backend))"
    and d: "calls r' = [SCAN ''0'' ''user:1:tasks:*'' 100, DEL [''user:1:tasks:default''],
                       SCAN ''100'' ''user:1:tasks:*'' 100, DEL [''user:1:tasks:priority:high'']]"
    unfolding m tr ks c0 by auto
  have "lookup_slot ''user:2:tasks:default'' (slots r') = Some ''[]''"
    using c [of "''user:2:tasks:default''"] l1 by simp
  moreover have "lookup_slot ''user:1:tasks:default'' (slots r') = None"
    using c [of "''user:1:tasks:default''"] by simp
  ultimately show ?thesis
    using a b d by blast
qed

section \<open>Properties of the data access layer\<close>

subsection \<open>Transactions\<close>



















section \<open>Properties of the task repository\<close>

subsection \<open>States used in the examples\<close>

definition example_db :: database where
  "example_db =
     \<lparr>tasks = [],
      categories = [\<lparr>c_id = 1, c_user_id = 1, c_name = ''Work'', c_color = ''#3B82F6''\<rparr>,
                    \<lparr>c_id = 2, c_user_id = 2, c_name = ''Home'', c_color = ''#10B981''\<rparr>],
      next_task_id = 1, now = 1000, db_fault = None, statements = []\<rparr>"

definition example_dal :: dal where
  "example_dal = \<lparr>cache = empty_backend, db = example_db, config_ttl = 300\<rparr>"

definition example_task :: task_data where
  "example_task =
     \<lparr>d_title = ''A'', d_description = None, d_priority = Some ''high'', d_due_date = None,
      d_category_id = None\<rparr>"

definition no_update :: task_update where
  "no_update =
     \<lparr>u_title = None, u_description = None, u_completed = None, u_priority = None,
      u_due_date = None, u_category_id = None\<rparr>"

text \<open>The \<^verbatim>\<open>fromCache\<close> field of what a read returned.\<close>

definition fromCache :: "js_error + jsval \<Rightarrow> bool option" where
  "fromCache res =
     (case res of
        Inl e \<Rightarrow> None
      | Inr v \<Rightarrow> (case property (own_entries v) ''fromCache'' of JBool b \<Rightarrow> Some b | _ \<Rightarrow> None))"

text \<open>The \<^verbatim>\<open>tasks\<close> array of what a list read returned.\<close>

definition listed :: "js_error + jsval \<Rightarrow> jsval" where
  "listed res = (case res of Inl e \<Rightarrow> JUndefined | Inr v \<Rightarrow> property (own_entries v) ''tasks'')"

subsection \<open>Deleting a task that is not there\<close>






subsection \<open>Validation of the sort column and direction\<close>

lemma getCached_effect: "\<exists>v. getCached key d = (v, d\<lparr>cache := sent (GET key) (cache d)\<rparr>)"
  by (cases "fault (cache d)")
    (auto simp: getCached_def helper_get_def redis_get_def helper_catch_def split: option.splits)

text \<open>
  C9, amended. \<^verbatim>\<open>getUserTasks\<close> reads the cache first. When that read is a miss and the
  sort field is outside the allow-list, or the sort field is allowed and the order is a
  string that, in lower case, is neither \<^verbatim>\<open>asc\<close> nor \<^verbatim>\<open>desc\<close>, the call throws a
  validation error; the relational store is not contacted (its state and its record of
  statements are as before), and the cache has received the one GET of the list key.
\<close>

theorem getUserTasks_rejects_before_query:
  assumes "\<not> truthy (fst (getCached (list_key userId filters) d))"
    and "or_default (property filters ''sort'') (JStr ''created_at'') \<notin> JStr ` set allowedSortFields
         \<or> (\<exists>dir. or_default (property filters ''order'') (JStr ''desc'') = JStr dir
                 \<and> map lower_char dir \<notin> set allowedOrderDirections)"
  shows "\<exists>message.
           getUserTasks userId filters d =
             (Inl (Error message), d\<lparr>cache := sent (GET (list_key userId filters)) (cache d)\<rparr>)"
proof -
  obtain v where g: "getCached (list_key userId filters) d =
      (v, d\<lparr>cache := sent (GET (list_key userId filters)) (cache d)\<rparr>)"
    using getCached_effect by blast
  with assms(1) have v: "\<not> truthy v" by simp
  show ?thesis
  proof (cases "or_default (property filters ''sort'') (JStr ''created_at'') \<in> JStr ` set allowedSortFields")
    case False
    with g v show ?thesis
      by (simp add: getUserTasks_def Let_def)
  next
    case True
    with assms(2) obtain dir where
      "or_default (property filters ''order'') (JStr ''desc'') = JStr dir"
      "map lower_char dir \<notin> set allowedOrderDirections"
      by blast
    with True g v show ?thesis
      by (simp add: getUserTasks_def Let_def)
  qed
qed

theorem getUserTasks_rejects_before_query_witness:
  "(\<exists>message.
      getUserTasks 1 [(''sort'', JStr ''id); DROP TABLE tasks; --'')] example_dal =
        (Inl (Error message),
         example_dal\<lparr>cache := sent (GET (list_key 1 [(''sort'', JStr ''id); DROP TABLE tasks; --'')]))
                                   (cache example_dal)\<rparr>))
   \<and> (\<exists>message.
      getUserTasks 1 [(''order'', JStr ''sideways'')] example_dal =
        (Inl (Error message),
         example_dal\<lparr>cache := sent (GET (list_key 1 [(''order'', JStr ''sideways'')])) (cache example_dal)\<rparr>))"
proof -
  let ?F = "[(''sort'', JStr ''id); DROP TABLE tasks; --'')]"
  let ?G = "[(''order'', JStr ''sideways'')]"
  have m1: "\<not> truthy (fst (getCached (list_key 1 ?F) example_dal))"
    by code_simp
  have i1: "or_default (property ?F ''sort'') (JStr ''created_at'') \<notin> JStr ` set allowedSortFields
         \<or> (\<exists>dir. or_default (property ?F ''order'') (JStr ''desc'') = JStr dir
                 \<and> map lower_char dir \<notin> set allowedOrderDirections)"
    by (rule disjI1) code_simp
  have m2: "\<not> truthy (fst (getCached (list_key 1 ?G) example_dal))"
    by code_simp
  have "map lower_char ''sideways'' \<notin> set allowedOrderDirections"
    by code_simp
  moreover have "or_default (property ?G ''order'') (JStr ''desc'') = JStr ''sideways''"
    by code_simp
  ultimately have i2: "or_default (property ?G ''sort'') (JStr ''created_at'') \<notin> JStr ` set allowedSortFields
         \<or> (\<exists>dir. or_default (property ?G ''order'') (JStr ''desc'') = JStr dir
                 \<and> map lower_char dir \<notin> set allowedOrderDirections)"
    by blast
  from getUserTasks_rejects_before_query [OF m1 i1] getUserTasks_rejects_before_query [OF m2 i2]
  show ?thesis by blast
qed

text \<open>
  The claim as stated fails. The cache is contacted before the sort field is looked at;
  a list cached under valid filters is served to a call whose filters are invalid and
  have the same key after sanitisation; and the direction is compared in lower case, so
  \<^verbatim>\<open>ASC\<close> is accepted.
\<close>

theorem cache_is_read_before_validation:
  "calls (cache (snd (getUserTasks 1 [(''sort'', JStr ''id); DROP TABLE tasks; --'')] example_dal)))
     = [GET ''user_tasks:1:__sort___id___DROP_TABLE_tasks__--__'']
   \<and> fromCache (fst (getUserTasks 1 [(''sort'', JStr ''title_,_order_:_asc'')]
        (snd (getUserTasks 1 [(''sort'', JStr ''title''), (''order'', JStr ''asc'')] example_dal))))
     = Some True
   \<and> fromCache (fst (getUserTasks 1 [(''order'', JStr ''ASC'')] example_dal)) = Some False"
  by code_simp

subsection \<open>Ownership of the category\<close>












subsection \<open>Invalidation after a mutation\<close>

text \<open>
  C1. The claim fails on the code. \<^verbatim>\<open>invalidateUserTasksCache\<close> of the repository deletes
  the two keys \<^verbatim>\<open>user_tasks:<id>\<close> and \<^verbatim>\<open>user_task_stats:<id>\<close>; a list is cached under
  \<^verbatim>\<open>user_tasks:<id>:<filters>\<close>, which no mutation deletes. Here user 1 has one task and has
  listed it; after an update, a second create and a delete, the list with the same
  filters is still served from the cache with the task as it was, while the store has
  moved on.
\<close>

theorem list_is_stale_after_mutation:
  "(let d1 = snd (createTask 1 example_task example_dal);
        before = fst (getUserTasks 1 [] d1);
        d2 = snd (getUserTasks 1 [] d1);
        updated = snd (updateTask 1 1 (no_update\<lparr>u_completed := Some True\<rparr>) d2);
        created = snd (createTask 1 example_task d2);
        deleted = snd (deleteTask 1 1 d2)
    in fromCache before = Some False
       \<and> fromCache (fst (getUserTasks 1 [] updated)) = Some True
       \<and> listed (fst (getUserTasks 1 [] updated)) = listed before
       \<and> map t_completed (tasks (db updated)) = [True]
       \<and> fromCache (fst (getUserTasks 1 [] created)) = Some True
       \<and> listed (fst (getUserTasks 1 [] created)) = listed before
       \<and> length (tasks (db created)) = 2
       \<and> fromCache (fst (getUserTasks 1 [] deleted)) = Some True
       \<and> listed (fst (getUserTasks 1 [] deleted)) = listed before
       \<and> tasks (db deleted) = []
       \<and> keys_of (slots (cache updated)) = [''user_tasks:1:__'']
       \<and> calls (cache deleted) =
            calls (cache d2) @ [DEL [''user_tasks:1''], DEL [''user_task_stats:1''], DEL [''task:1:1'']])"
  by code_simp

subsection \<open>Filters in another order\<close>

text \<open>
  \<^verbatim>\<open>_hashFilters\<close> of the cache service sorts the keys, so two filter objects with the same
  properties in another order have the same key there.
\<close>

lemma hashFilters_order_insensitive:
  assumes "distinct (map fst A)" and "distinct (map fst B)" and "set A = set B"
  shows "hashFilters (JObj A) = hashFilters (JObj B)"
proof -
  have "set (map fst A) = set (map fst B)"
    using assms(3) by simp
  then have k: "sort (map fst A) = sort (map fst B)"
    using assms(1,2)
    by (intro sorted_distinct_set_unique) simp_all
  have "map_of A = map_of B"
    using assms by (simp add: map_of_inject_set)
  then have "property A = property B"
    by (simp add: property_def fun_eq_iff)
  with k show ?thesis
    by (simp add: hashFilters_def own_entries_def)
qed

text \<open>
  C2. The claim fails on the code of the repository. \<^verbatim>\<open>TaskRepository.getUserTasks\<close> builds
  its key from \<^verbatim>\<open>JSON.stringify(filters)\<close>, which keeps the insertion order: the two orders
  of \<^verbatim>\<open>{priority: 'high', completed: false}\<close> give two keys, and the second call misses
  the entry of the first. The key of the cache service is the same for both.
\<close>

theorem reordered_filters_miss_the_cache:
  "list_key 1 [(''priority'', JStr ''high''), (''completed'', JBool False)]
     = ''user_tasks:1:__priority___high___completed__false_''
   \<and> list_key 1 [(''completed'', JBool False), (''priority'', JStr ''high'')]
     = ''user_tasks:1:__completed__false__priority___high__''
   \<and> fromCache (fst (getUserTasks 1 [(''completed'', JBool False), (''priority'', JStr ''high'')]
        (snd (getUserTasks 1 [(''priority'', JStr ''high''), (''completed'', JBool False)] example_dal))))
     = Some False
   \<and> fromCache (fst (getUserTasks 1 [(''priority'', JStr ''high''), (''completed'', JBool False)]
        (snd (getUserTasks 1 [(''priority'', JStr ''high''), (''completed'', JBool False)] example_dal))))
     = Some True
   \<and> key_userTasks 1 (JObj [(''priority'', JStr ''high''), (''completed'', JBool False)])
     = key_userTasks 1 (JObj [(''completed'', JBool False), (''priority'', JStr ''high'')])"
  by code_simp

end
